theory Spec2Isabelle
  imports Complex_Main
begin

section \<open>The loss guardian\<close>

text \<open>
  A model of the Binance Futures loss guardian: the position monitor that closes a
  position whose loss reaches the limit, the stop-loss checker, the alert throttle
  and the rounding of quantities. The repository holds the guardian twice. The
  model follows version 4.0, the one with \<open>retry\<close>, the pause flag and the three
  notifications of a close order. Version 3.0 has the same \<open>roundQty\<close>,
  \<open>shouldNotify\<close>, \<open>clearSymbol\<close> and \<open>checkSL\<close>; its \<open>check\<close> treats the cache in the
  same way and logs more; its \<open>tick\<close> is the one below without the pause test; and
  its \<open>closePosition\<close> submits the close order once and sends one notification.

  Every function returns, next to its result, the state it leaves and the list of
  its events: the requests to the exchange, the sleeps, the log lines and the texts
  handed to Telegram. A function that can throw returns \<open>Inl\<close> of the error. An
  activity (a tick, a detection cycle) is modelled as running alone, against the
  answers the exchange gives during it.
\<close>

section \<open>Numbers\<close>

text \<open>
  A JavaScript \<open>number\<close> is an IEEE double. The model keeps the three kinds of value
  the guardian's comparisons tell apart: \<open>NaN\<close>, the two infinities, and the finite
  values, which are taken at their exact rational value. Comparisons with \<open>NaN\<close>
  are false, as in the language.
\<close>

datatype number = NaN | NegInfinity | Fin rat | Infinity

fun lt :: "number \<Rightarrow> number \<Rightarrow> bool" where
  "lt NaN _ = False"
| "lt _ NaN = False"
| "lt (Fin a) (Fin b) = (a < b)"
| "lt NegInfinity NegInfinity = False"
| "lt NegInfinity _ = True"
| "lt _ NegInfinity = False"
| "lt Infinity _ = False"
| "lt (Fin _) Infinity = True"

fun ge :: "number \<Rightarrow> number \<Rightarrow> bool" where
  "ge NaN _ = False"
| "ge _ NaN = False"
| "ge a b = (\<not> lt a b)"

definition gt :: "number \<Rightarrow> number \<Rightarrow> bool" where
  "gt a b = lt b a"

text \<open>\<open>Math.abs\<close>.\<close>

fun Math_abs :: "number \<Rightarrow> number" where
  "Math_abs NaN = NaN"
| "Math_abs NegInfinity = Infinity"
| "Math_abs Infinity = Infinity"
| "Math_abs (Fin x) = Fin \<bar>x\<bar>"

text \<open>
  \<open>parseFloat(x.toFixed(p))\<close> for \<open>0 \<le> p \<le> 100\<close>. \<open>toFixed\<close> prints a value that is
  not finite, or whose magnitude is at least \<open>10^21\<close>, as \<open>toString\<close> does, and
  \<open>parseFloat\<close> reads that text back as the same number. Otherwise \<open>toFixed\<close> prints
  the sign and \<open>n / 10^p\<close> for the integer \<open>n\<close> closest to \<open>\<bar>x\<bar> * 10^p\<close>, the larger
  one of two; the model returns the number that the printed decimal denotes.
\<close>

definition nearestInt :: "rat \<Rightarrow> int" where
  "nearestInt x = \<lfloor>x + 1 / 2\<rfloor>"

fun toFixedValue :: "nat \<Rightarrow> number \<Rightarrow> number" where
  "toFixedValue p (Fin x) =
     (if \<bar>x\<bar> \<ge> 10 ^ 21 then Fin x
      else if x < 0 then Fin (- (of_int (nearestInt (- x * 10 ^ p)) / 10 ^ p))
      else Fin (of_int (nearestInt (x * 10 ^ p)) / 10 ^ p))"
| "toFixedValue p x = x"

text \<open>
  \<open>parseFloat\<close> on a string: leading white space, an optional sign, then
  \<open>Infinity\<close> or the longest decimal literal (digits, an optional fraction, an
  optional exponent); \<open>NaN\<close> when there is no digit. A value too small for a double
  reads as zero and one too large as an infinity. The mantissa is kept exact: the
  guardian only asks whether the value is positive.
\<close>

definition isWhiteSpace :: "char \<Rightarrow> bool" where
  "isWhiteSpace c = (c \<in> set [CHR '' '', CHR 0x09, CHR 0x0A, CHR 0x0B, CHR 0x0C, CHR 0x0D])"

definition isDigit :: "char \<Rightarrow> bool" where
  "isDigit c = (48 \<le> (of_char c :: nat) \<and> (of_char c :: nat) \<le> 57)"

fun readDigits :: "string \<Rightarrow> nat \<Rightarrow> nat \<Rightarrow> nat \<times> nat \<times> string" where
  "readDigits [] acc n = (acc, n, [])"
| "readDigits (c # cs) acc n =
     (if isDigit c then readDigits cs (acc * 10 + (of_char c - 48)) (Suc n)
      else (acc, n, c # cs))"

definition readSign :: "string \<Rightarrow> bool \<times> string" where
  "readSign s =
     (case s of
        [] \<Rightarrow> (False, [])
      | c # cs \<Rightarrow>
          if c = CHR ''-'' then (True, cs)
          else if c = CHR ''+'' then (False, cs)
          else (False, s))"

definition exponentPart :: "string \<Rightarrow> int" where
  "exponentPart s =
     (case s of
        [] \<Rightarrow> 0
      | c # cs \<Rightarrow>
          if c = CHR ''e'' \<or> c = CHR ''E''
          then (let (eneg, r) = readSign cs; (ev, ne, _) = readDigits r 0 0
                in if ne = 0 then 0 else if eneg then - int ev else int ev)
          else 0)"

definition toDouble :: "rat \<Rightarrow> number" where
  "toDouble m =
     (if m \<ge> 2 ^ 1024 - 2 ^ 970 then Infinity
      else if m \<le> 1 / 2 ^ 1075 then Fin 0
      else Fin m)"

fun negate :: "number \<Rightarrow> number" where
  "negate NaN = NaN"
| "negate Infinity = NegInfinity"
| "negate NegInfinity = Infinity"
| "negate (Fin x) = Fin (- x)"

definition parseFloat :: "string \<Rightarrow> number" where
  "parseFloat str =
     (let (neg, s2) = readSign (dropWhile isWhiteSpace str)
      in if take 8 s2 = ''Infinity'' then (if neg then NegInfinity else Infinity)
         else
           (let (ip, ni, s3) = readDigits s2 0 0;
                (fp, nf, s4) =
                  (case s3 of
                     [] \<Rightarrow> (0, 0, [])
                   | c # cs \<Rightarrow> if c = CHR ''.'' then readDigits cs 0 0 else (0, 0, s3))
            in if ni + nf = 0 then NaN
               else
                 (let e = exponentPart s4;
                      m = (of_nat ip + of_nat fp / 10 ^ nf) *
                          (if e \<ge> 0 then 10 ^ nat e else 1 / 10 ^ nat (- e))
                  in if neg then negate (toDouble m) else toDouble m)))"

section \<open>Data\<close>

text \<open>A thrown \<open>Error\<close> with its message.\<close>

datatype error = Error string

datatype Side = BUY | SELL

datatype PositionSide = LONG | SHORT

record Position =
  symbol :: string
  amt :: number
  pnl :: number
  side :: PositionSide

record AlgoOrder =
  algoId :: int
  symbol :: string
  side :: Side
  quantity :: string
  orderType :: string
  algoStatus :: string
  closePosition :: "bool option"

text \<open>
  \<open>getOpenOrders\<close> returns \<open>any[]\<close>: the fields that \<open>checkSL\<close> reads are values of
  the exchange's JSON, of which the code tells strings, booleans, numbers and the
  missing field apart.
\<close>

datatype jsval = JUndefined | JNull | JBool bool | JNumber number | JString string

record Order =
  status :: jsval
  side :: jsval
  type :: jsval
  closePosition :: jsval
  origQty :: jsval
  quantity :: jsval

record LotFilter =
  filterType :: string
  stepSize :: "string option"

record ExchangeInfoSymbol =
  symbol :: string
  filters :: "LotFilter list"

record OrderResult =
  orderId :: int
  status :: string

text \<open>
  The exchange as the guardian sees it during one activity: what each request of
  \<open>BinanceAPI\<close> answers, or the error it throws. \<open>marketClose\<close> is also given the
  number of the attempt, since \<open>retry\<close> sends the same request again.
\<close>

record Exchange =
  getPositions :: "error + Position list"
  exchangeInfo :: "error + ExchangeInfoSymbol list"
  getAlgoOrders :: "string \<Rightarrow> error + AlgoOrder list"
  getOpenOrders :: "string \<Rightarrow> error + Order list"
  cancelAllOrders :: "string \<Rightarrow> error + unit"
  cancelAlgoOrder :: "string \<Rightarrow> int \<Rightarrow> error + unit"
  marketClose :: "string \<Rightarrow> Side \<Rightarrow> number \<Rightarrow> nat \<Rightarrow> error + OrderResult"

text \<open>The settings of \<open>cfg\<close> that the core reads.\<close>

record Config =
  maxLossUsd :: number
  dryRun :: bool
  telegramInterval :: int

record SLState =
  hasSL :: bool
  lastCheck :: int

text \<open>
  The mutable state: the global \<open>paused\<close>, the precision cache of \<open>BinanceAPI\<close>, the
  throttle map of \<open>TelegramBot\<close>, the cache of \<open>SLChecker\<close> and the fields of
  \<open>PositionMonitor\<close>.
\<close>

record Guardian =
  paused :: bool
  symbolInfo :: "string \<rightharpoonup> nat"
  lastNotify :: "string \<rightharpoonup> int"
  cache :: "string \<rightharpoonup> SLState"
  positions :: "Position list"
  errors :: nat
  lastPrint :: int

record StatusEntry =
  symbol :: string
  pnl :: number
  hasSL :: "bool option"

record StatusInfo =
  positions :: "StatusEntry list"
  errors :: nat

subsection \<open>What the guardian does to the outside\<close>

datatype request =
    PositionRisk
  | ExchangeInfo
  | OpenAlgoOrders string
  | OpenOrders string
  | CancelAllOrders string
  | CancelAlgoOrder string int
  | MarketClose string Side number

datatype level = ERR | WRN | OK | INFO

text \<open>The log lines, one constructor for each template, with the values it prints.\<close>

datatype logline =
    L_Closing string number number
  | L_Dry string Side number
  | L_Retry string nat nat int
  | L_Closed string int
  | L_Order string string int
  | L_Unexpected string string
  | L_Failed string string
  | L_NoPositions
  | L_Position string PositionSide number string
  | L_NoSL string
  | L_SLok string
  | L_Paused
  | L_Resumed
  | L_Tick string
  | L_Errors nat

text \<open>The Telegram texts, likewise.\<close>

datatype message =
    T_Closed string number int
  | T_NotFullyClosed string string int
  | T_Status string string int
  | T_Error string string
  | T_NoSL string PositionSide number
  | T_Paused
  | T_Resumed
  | T_Report bool number StatusInfo

text \<open>
  \<open>Call_closePosition\<close> marks the call \<open>this.closePosition(pos)\<close>; \<open>Send\<close> is the call
  \<open>this.telegram.send(text)\<close>, which never throws.
\<close>

datatype event =
    Request request
  | Sleep int
  | Log level logline
  | Send message
  | Call_closePosition Position

section \<open>retry\<close>

text \<open>
  \<open>fn i\<close> is what the \<open>i\<close>-th call of the operation does: its result or the error it
  throws, and its events. \<open>lastError\<close> starts as \<open>null\<close>, which is what \<open>retry\<close>
  throws when the loop body never runs.
\<close>

function retry_from ::
  "(nat \<Rightarrow> (error + 'a) \<times> event list) \<Rightarrow> nat \<Rightarrow> int \<Rightarrow> string \<Rightarrow> nat \<Rightarrow> error option
     \<Rightarrow> (error option + 'a) \<times> event list" where
  "retry_from fn attempts delayMs name i lastError =
     (if i \<le> attempts then
        (case fn i of
           (Inr v, tr) \<Rightarrow> (Inr v, tr)
         | (Inl e, tr) \<Rightarrow>
             (let (r, rest) = retry_from fn attempts delayMs name (Suc i) (Some e)
              in (r, tr @ (if i < attempts
                           then [Log WRN (L_Retry name i attempts delayMs), Sleep delayMs]
                           else []) @ rest)))
      else (Inl lastError, []))"
  by pat_completeness auto
termination
  by (relation "measure (\<lambda>(fn, attempts, delayMs, name, i, lastError). Suc attempts - i)") auto

definition retry ::
  "(nat \<Rightarrow> (error + 'a) \<times> event list) \<Rightarrow> nat \<Rightarrow> int \<Rightarrow> string
     \<Rightarrow> (error option + 'a) \<times> event list" where
  "retry fn attempts delayMs name = retry_from fn attempts delayMs name 1 None"

declare retry_from.simps [simp del]

section \<open>BinanceAPI.roundQty\<close>

text \<open>\<open>s.split('.')\<close>: the pieces of \<open>s\<close> between the dots.\<close>

fun split_dot :: "string \<Rightarrow> string list" where
  "split_dot [] = [[]]"
| "split_dot (c # cs) =
     (if c = CHR ''.'' then [] # split_dot cs
      else (case split_dot cs of [] \<Rightarrow> [[c]] | w # ws \<Rightarrow> (c # w) # ws))"

text \<open>\<open>(stepSize.split('.')[1] || '').length\<close>.\<close>

definition stepPrecision :: "string \<Rightarrow> nat" where
  "stepPrecision st = (case split_dot st of _ # part # _ \<Rightarrow> length part | _ \<Rightarrow> 0)"

text \<open>
  The loop over \<open>info.symbols\<close>: an instrument whose first \<open>LOT_SIZE\<close> filter has a
  non-empty \<open>stepSize\<close> gets its precision stored.
\<close>

fun storePrecisions :: "(string \<rightharpoonup> nat) \<Rightarrow> ExchangeInfoSymbol list \<Rightarrow> (string \<rightharpoonup> nat)" where
  "storePrecisions info [] = info"
| "storePrecisions info (s # rest) =
     (case find (\<lambda>f. filterType f = ''LOT_SIZE'') (filters s) of
        None \<Rightarrow> storePrecisions info rest
      | Some lot \<Rightarrow>
          (case stepSize lot of
             None \<Rightarrow> storePrecisions info rest
           | Some st \<Rightarrow>
               if st = [] then storePrecisions info rest
               else storePrecisions (info(ExchangeInfoSymbol.symbol s \<mapsto> stepPrecision st)) rest))"

text \<open>\<open>this.symbolInfo.get(symbol) || 6\<close>: a missing entry and the entry \<open>0\<close> are both falsy.\<close>

definition precisionFor :: "(string \<rightharpoonup> nat) \<Rightarrow> string \<Rightarrow> nat" where
  "precisionFor info symb =
     (case info symb of None \<Rightarrow> 6 | Some p \<Rightarrow> if p = 0 then 6 else p)"

text \<open>
  \<open>roundQty\<close> sends the \<open>exchangeInfo\<close> request only when the symbol has no entry. It
  returns the rounded quantity or the error thrown, the precision cache and its
  events. \<open>toFixed\<close> throws a \<open>RangeError\<close> for more than 100 digits.
\<close>

definition roundQty ::
  "Exchange \<Rightarrow> (string \<rightharpoonup> nat) \<Rightarrow> string \<Rightarrow> number
     \<Rightarrow> (error + number) \<times> (string \<rightharpoonup> nat) \<times> event list" where
  "roundQty api info symb qty =
     (let (fetched, tr) =
            (if info symb = None
             then (case exchangeInfo api of
                     Inl e \<Rightarrow> (Inl e, [Request ExchangeInfo])
                   | Inr answer \<Rightarrow> (Inr (storePrecisions info answer), [Request ExchangeInfo]))
             else (Inr info, []))
      in case fetched of
           Inl e \<Rightarrow> (Inl e, info, tr)
         | Inr info' \<Rightarrow>
             (let precision = precisionFor info' symb
              in if precision > 100
                 then (Inl (Error ''toFixed() digits argument must be between 0 and 100''), info', tr)
                 else (Inr (toFixedValue precision qty), info', tr)))"

section \<open>TelegramBot: the alert throttle\<close>

text \<open>\<open>now\<close> is the reading of \<open>Date.now()\<close>; \<open>this.lastNotify.get(symbol) || 0\<close>.\<close>

definition shouldNotify :: "Config \<Rightarrow> int \<Rightarrow> string \<Rightarrow> Guardian \<Rightarrow> bool \<times> Guardian" where
  "shouldNotify cfg now symb g =
     (let last = (case lastNotify g symb of None \<Rightarrow> 0 | Some t \<Rightarrow> t)
      in if now - last \<ge> telegramInterval cfg
         then (True, g\<lparr>lastNotify := (lastNotify g)(symb \<mapsto> now)\<rparr>)
         else (False, g))"

definition clearSymbol :: "string \<Rightarrow> Guardian \<Rightarrow> Guardian" where
  "clearSymbol symb g = g\<lparr>lastNotify := (lastNotify g)(symb := None)\<rparr>"

section \<open>SLChecker\<close>

subsection \<open>checkSL\<close>

text \<open>JavaScript's truthiness and \<open>a || b\<close> on the values of an order.\<close>

fun truthy :: "jsval \<Rightarrow> bool" where
  "truthy JUndefined = False"
| "truthy JNull = False"
| "truthy (JBool b) = b"
| "truthy (JNumber n) = (n \<noteq> NaN \<and> n \<noteq> Fin 0)"
| "truthy (JString s) = (s \<noteq> [])"

definition or_else :: "jsval \<Rightarrow> jsval \<Rightarrow> jsval" where
  "or_else a b = (if truthy a then a else b)"

text \<open>
  \<open>parseFloat\<close> of a value converts it to a string first: a number reads back as
  itself, and the texts of \<open>undefined\<close>, \<open>null\<close>, \<open>true\<close> and \<open>false\<close> hold no digit.
\<close>

fun parseFloatOf :: "jsval \<Rightarrow> number" where
  "parseFloatOf (JString s) = parseFloat s"
| "parseFloatOf (JNumber n) = n"
| "parseFloatOf _ = NaN"

fun sideName :: "Side \<Rightarrow> string" where
  "sideName BUY = ''BUY''"
| "sideName SELL = ''SELL''"

text \<open>
  The loop over the algo orders, \<open>True\<close> when it reaches a \<open>return true\<close>. Each
  \<open>continue\<close> is a recursive call on the rest of the list.
\<close>

fun algoLoop :: "Side \<Rightarrow> AlgoOrder list \<Rightarrow> bool" where
  "algoLoop expectedSide [] = False"
| "algoLoop expectedSide (order # rest) =
     (if algoStatus order \<noteq> ''NEW'' then algoLoop expectedSide rest
      else if AlgoOrder.side order \<noteq> expectedSide then algoLoop expectedSide rest
      else if orderType order \<noteq> ''STOP'' \<and> orderType order \<noteq> ''STOP_MARKET''
        then algoLoop expectedSide rest
      else if AlgoOrder.closePosition order = Some True then True
      else if gt (parseFloat (if AlgoOrder.quantity order = [] then ''0''
                              else AlgoOrder.quantity order)) (Fin 0) then True
      else algoLoop expectedSide rest)"

text \<open>The loop over the conventional orders.\<close>

fun ordersLoop :: "Side \<Rightarrow> Order list \<Rightarrow> bool" where
  "ordersLoop expectedSide [] = False"
| "ordersLoop expectedSide (order # rest) =
     (if Order.status order \<noteq> JString ''NEW'' then ordersLoop expectedSide rest
      else if Order.side order \<noteq> JString (sideName expectedSide) then ordersLoop expectedSide rest
      else if type order \<noteq> JString ''STOP'' \<and> type order \<noteq> JString ''STOP_MARKET''
        then ordersLoop expectedSide rest
      else
        (let closePos = (Order.closePosition order = JString ''true''
                         \<or> Order.closePosition order = JBool True);
             hasQty = gt (parseFloatOf (or_else (origQty order)
                            (or_else (Order.quantity order) (JString ''0'')))) (Fin 0)
         in if closePos \<or> hasQty then True else ordersLoop expectedSide rest))"

text \<open>
  \<open>checkSL\<close> returns \<open>true\<close>, \<open>false\<close> or throws; the events are the requests it sent.
  A \<open>return true\<close> inside the first \<open>try\<close> leaves the function before the second
  request is sent.
\<close>

definition checkSL :: "Exchange \<Rightarrow> string \<Rightarrow> PositionSide \<Rightarrow> (error + bool) \<times> event list" where
  "checkSL api symb sd =
     (let expectedSide = (if sd = LONG then SELL else BUY);
          (found1, hasNetworkError1) =
            (case getAlgoOrders api symb of
               Inl e \<Rightarrow> (False, True)
             | Inr algoOrders \<Rightarrow> (algoLoop expectedSide algoOrders, False))
      in if found1 then (Inr True, [Request (OpenAlgoOrders symb)])
         else
           (let (found2, hasNetworkError) =
                  (case getOpenOrders api symb of
                     Inl e \<Rightarrow> (False, True)
                   | Inr orders \<Rightarrow> (ordersLoop expectedSide orders, hasNetworkError1))
            in (if found2 then Inr True
                else if hasNetworkError then Inl (Error ''Network error'')
                else Inr False,
                [Request (OpenAlgoOrders symb), Request (OpenOrders symb)])))"

subsection \<open>check\<close>

text \<open>
  The first loop of \<open>check\<close>: every cached symbol without a position in the snapshot
  loses its cache entry and its throttle entry.
\<close>

definition evict :: "Position list \<Rightarrow> Guardian \<Rightarrow> Guardian" where
  "evict ps g =
     g\<lparr>cache := (\<lambda>s. if s \<in> set (map Position.symbol ps) then cache g s else None),
       lastNotify := (\<lambda>s. if cache g s \<noteq> None \<and> s \<notin> set (map Position.symbol ps)
                           then None else lastNotify g s)\<rparr>"

text \<open>
  The body of the second loop for one position. When \<open>checkSL\<close> throws, the \<open>catch\<close>
  does nothing: the cache is not updated.
\<close>

definition checkPosition ::
  "Exchange \<Rightarrow> Config \<Rightarrow> int \<Rightarrow> Position \<Rightarrow> Guardian \<Rightarrow> Guardian \<times> event list" where
  "checkPosition api cfg now pos g =
     (case checkSL api (Position.symbol pos) (Position.side pos) of
        (Inl e, tr) \<Rightarrow> (g, tr)
      | (Inr found, tr) \<Rightarrow>
          (let prev = cache g (Position.symbol pos);
               g1 = g\<lparr>cache := (cache g)(Position.symbol pos \<mapsto>
                                    \<lparr>SLState.hasSL = found, lastCheck = now\<rparr>)\<rparr>
           in if \<not> found then
                (case shouldNotify cfg now (Position.symbol pos) g1 of
                   (True, g2) \<Rightarrow>
                     (g2, tr @ [Log WRN (L_NoSL (Position.symbol pos)),
                                Send (T_NoSL (Position.symbol pos) (Position.side pos) (Position.pnl pos))])
                 | (False, g2) \<Rightarrow> (g2, tr))
              else
                (case prev of
                   None \<Rightarrow> (g1, tr)
                 | Some st \<Rightarrow>
                     if \<not> SLState.hasSL st
                     then (clearSymbol (Position.symbol pos) g1,
                           tr @ [Log OK (L_SLok (Position.symbol pos))])
                     else (g1, tr))))"

fun checkPositions ::
  "Exchange \<Rightarrow> Config \<Rightarrow> int \<Rightarrow> Position list \<Rightarrow> Guardian \<Rightarrow> Guardian \<times> event list" where
  "checkPositions api cfg now [] g = (g, [])"
| "checkPositions api cfg now (pos # rest) g =
     (let (g1, tr1) = checkPosition api cfg now pos g;
          (g2, tr2) = checkPositions api cfg now rest g1
      in (g2, tr1 @ tr2))"

text \<open>One detection cycle, on the monitor's snapshot.\<close>

definition check :: "Exchange \<Rightarrow> Config \<Rightarrow> int \<Rightarrow> Guardian \<Rightarrow> Guardian \<times> event list" where
  "check api cfg now g =
     checkPositions api cfg now (Guardian.positions g) (evict (Guardian.positions g) g)"

text \<open>A new \<open>SLChecker\<close> starts with an empty cache, a new \<open>TelegramBot\<close> with an empty
  throttle map, \<open>BinanceAPI\<close> with an empty precision cache; \<open>paused\<close> starts \<open>false\<close>.\<close>

definition initial :: Guardian where
  "initial = \<lparr>paused = False, symbolInfo = Map.empty, lastNotify = Map.empty,
              cache = Map.empty, positions = [], errors = 0, lastPrint = 0\<rparr>"

section \<open>PositionMonitor\<close>

definition getStatusInfo :: "Guardian \<Rightarrow> StatusInfo" where
  "getStatusInfo g =
     \<lparr>StatusInfo.positions =
        map (\<lambda>p. \<lparr>StatusEntry.symbol = Position.symbol p, pnl = Position.pnl p,
                   hasSL = map_option SLState.hasSL (cache g (Position.symbol p))\<rparr>)
            (Guardian.positions g),
      errors = Guardian.errors g\<rparr>"

text \<open>\<open>printPositions\<close> prints at most once a minute.\<close>

definition slStr :: "SLState option \<Rightarrow> string" where
  "slStr slState =
     (case slState of None \<Rightarrow> ''[?]''
      | Some st \<Rightarrow> if SLState.hasSL st then ''[SL]'' else ''[NO SL]'')"

definition printPositions :: "int \<Rightarrow> Guardian \<Rightarrow> Guardian \<times> event list" where
  "printPositions now g =
     (if now - lastPrint g < 60000 then (g, [])
      else
        (let g1 = g\<lparr>lastPrint := now\<rparr>
         in if Guardian.positions g = [] then (g1, [Log INFO L_NoPositions])
            else (g1, map (\<lambda>pos. Log INFO (L_Position (Position.symbol pos) (Position.side pos)
                                      (Position.pnl pos) (slStr (cache g (Position.symbol pos)))))
                          (Guardian.positions g))))"

text \<open>
  The loop that cancels the active algo orders; an error thrown by a cancellation
  leaves the loop, and the \<open>catch\<close> around it swallows the error.
\<close>

fun cancelLoop :: "Exchange \<Rightarrow> string \<Rightarrow> AlgoOrder list \<Rightarrow> event list" where
  "cancelLoop api symb [] = []"
| "cancelLoop api symb (order # rest) =
     (if algoStatus order = ''NEW''
      then Request (CancelAlgoOrder symb (algoId order)) #
             (case cancelAlgoOrder api symb (algoId order) of
                Inl e \<Rightarrow> []
              | Inr _ \<Rightarrow> cancelLoop api symb rest)
      else cancelLoop api symb rest)"

text \<open>The three branches on \<open>result.status\<close>.\<close>

definition reportResult :: "Position \<Rightarrow> OrderResult \<Rightarrow> event list" where
  "reportResult pos result =
     (if OrderResult.status result = ''FILLED''
      then [Log OK (L_Closed (Position.symbol pos) (orderId result)),
            Send (T_Closed (Position.symbol pos) (Position.pnl pos) (orderId result))]
      else if OrderResult.status result = ''PARTIALLY_FILLED'' \<or> OrderResult.status result = ''NEW''
      then [Log WRN (L_Order (Position.symbol pos) (OrderResult.status result) (orderId result)),
            Send (T_NotFullyClosed (Position.symbol pos) (OrderResult.status result) (orderId result))]
      else [Log ERR (L_Unexpected (Position.symbol pos) (OrderResult.status result)),
            Send (T_Status (Position.symbol pos) (OrderResult.status result) (orderId result))])"

text \<open>
  \<open>closePosition\<close> returns normally or with the error it lets through: \<open>roundQty\<close> is
  called outside every \<open>try\<close>. In the last \<open>catch\<close>, \<open>e.message\<close> on the \<open>null\<close> that
  \<open>retry\<close> throws after no attempt is a \<open>TypeError\<close>.
\<close>

definition closePosition ::
  "Exchange \<Rightarrow> Config \<Rightarrow> Position \<Rightarrow> Guardian \<Rightarrow> (error + unit) \<times> Guardian \<times> event list" where
  "closePosition api cfg pos g =
     (let sd = (if gt (amt pos) (Fin 0) then SELL else BUY);
          symb = Position.symbol pos;
          (rounded, info, tr0) = roundQty api (symbolInfo g) symb (Math_abs (amt pos));
          g1 = g\<lparr>symbolInfo := info\<rparr>
      in case rounded of
           Inl e \<Rightarrow> (Inl e, g1, tr0)
         | Inr qty \<Rightarrow>
             if dryRun cfg then (Inr (), g1, tr0 @ [Log WRN (L_Dry symb sd qty)])
             else
               (let tr1 = [Request (CancelAllOrders symb)];
                    tr2 = Request (OpenAlgoOrders symb) #
                            (case getAlgoOrders api symb of
                               Inl e \<Rightarrow> []
                             | Inr algoOrders \<Rightarrow> cancelLoop api symb algoOrders);
                    (closed, tr3) =
                      retry (\<lambda>i. (marketClose api symb sd qty i, [Request (MarketClose symb sd qty)]))
                        3 500 (''close '' @ symb)
                in case closed of
                     Inr result \<Rightarrow> (Inr (), g1, tr0 @ tr1 @ tr2 @ tr3 @ reportResult pos result)
                   | Inl None \<Rightarrow>
                       (Inl (Error ''TypeError''), g1, tr0 @ tr1 @ tr2 @ tr3)
                   | Inl (Some (Error msg)) \<Rightarrow>
                       (Inr (), g1, tr0 @ tr1 @ tr2 @ tr3 @
                          [Log ERR (L_Failed symb msg), Send (T_Error symb (take 100 msg))])))"

text \<open>The loop of \<open>tick\<close> over the snapshot; an error from \<open>closePosition\<close> ends it.\<close>

fun closeLoop ::
  "Exchange \<Rightarrow> Config \<Rightarrow> Position list \<Rightarrow> Guardian \<Rightarrow> (error + unit) \<times> Guardian \<times> event list" where
  "closeLoop api cfg [] g = (Inr (), g, [])"
| "closeLoop api cfg (pos # rest) g =
     (if lt (Position.pnl pos) (Fin 0) then
        (let loss = Math_abs (Position.pnl pos)
         in if ge loss (maxLossUsd cfg) then
              (case closePosition api cfg pos g of
                 (Inl e, g1, tr) \<Rightarrow>
                   (Inl e, g1,
                    Log ERR (L_Closing (Position.symbol pos) loss (maxLossUsd cfg)) #
                    Call_closePosition pos # tr)
               | (Inr u, g1, tr) \<Rightarrow>
                   (let (r, g2, tr2) = closeLoop api cfg rest g1
                    in (r, g2,
                        Log ERR (L_Closing (Position.symbol pos) loss (maxLossUsd cfg)) #
                        Call_closePosition pos # tr @ tr2)))
            else closeLoop api cfg rest g)
      else closeLoop api cfg rest g)"

text \<open>
  \<open>tick\<close>: the snapshot is replaced by the positions fetched and printed; unless the
  guardian is paused, the loop runs over it. When the request throws, the snapshot
  stays as it was.
\<close>

definition tick ::
  "Exchange \<Rightarrow> Config \<Rightarrow> int \<Rightarrow> Guardian \<Rightarrow> (error + unit) \<times> Guardian \<times> event list" where
  "tick api cfg now g =
     (case getPositions api of
        Inl e \<Rightarrow> (Inl e, g, [Request PositionRisk])
      | Inr ps \<Rightarrow>
          (let (g1, tr1) = printPositions now (g\<lparr>Guardian.positions := ps\<rparr>)
           in if paused g1 then (Inr (), g1, Request PositionRisk # tr1)
              else
                (let (r, g2, tr2) = closeLoop api cfg (Guardian.positions g1) g1
                 in (r, g2, Request PositionRisk # tr1 @ tr2))))"

text \<open>
  One turn of the \<open>while\<close> loop of \<open>start\<close>: the \<open>catch\<close> counts the error and the loop
  goes on; ten errors in a row add a sleep of thirty seconds.
\<close>

definition turn ::
  "Exchange \<Rightarrow> Config \<Rightarrow> int \<Rightarrow> int \<Rightarrow> Guardian \<Rightarrow> Guardian \<times> event list" where
  "turn api cfg intervalMs now g =
     (case tick api cfg now g of
        (Inr u, g1, tr) \<Rightarrow> (g1\<lparr>Guardian.errors := 0\<rparr>, tr @ [Sleep intervalMs])
      | (Inl (Error msg), g1, tr) \<Rightarrow>
          (let n = Suc (Guardian.errors g1)
           in (g1\<lparr>Guardian.errors := n\<rparr>,
               tr @ [Log ERR (L_Tick (take 50 msg))] @
               (if n \<ge> 10 then [Log WRN (L_Errors n), Sleep 30000] else []) @
               [Sleep intervalMs])))"

section \<open>The commands of the Telegram bot\<close>

definition cmdPause :: "Guardian \<Rightarrow> Guardian \<times> event list" where
  "cmdPause g = (g\<lparr>paused := True\<rparr>, [Send T_Paused, Log INFO L_Paused])"

definition cmdResume :: "Guardian \<Rightarrow> Guardian \<times> event list" where
  "cmdResume g = (g\<lparr>paused := False\<rparr>, [Send T_Resumed, Log INFO L_Resumed])"

definition cmdStatus :: "Config \<Rightarrow> Guardian \<Rightarrow> event list" where
  "cmdStatus cfg g = [Send (T_Report (paused g) (maxLossUsd cfg) (getStatusInfo g))]"

section \<open>The specification's predicates\<close>

text \<open>
  The predicates of the specification, written from its words, to state what the
  loops above compute. The protective side of a position is the side that reduces
  it.
\<close>

definition protectiveSide :: "PositionSide \<Rightarrow> Side" where
  "protectiveSide sd = (case sd of LONG \<Rightarrow> SELL | SHORT \<Rightarrow> BUY)"

text \<open>
  An order protects when it is active, on the protective side, of a stop type, and
  closes the whole position or carries a strictly positive quantity.
\<close>

definition algoProtects :: "Side \<Rightarrow> AlgoOrder \<Rightarrow> bool" where
  "algoProtects sd order \<longleftrightarrow>
     algoStatus order = ''NEW'' \<and> AlgoOrder.side order = sd
     \<and> (orderType order = ''STOP'' \<or> orderType order = ''STOP_MARKET'')
     \<and> (AlgoOrder.closePosition order = Some True
          \<or> gt (parseFloat (AlgoOrder.quantity order)) (Fin 0))"

definition orderProtects :: "Side \<Rightarrow> Order \<Rightarrow> bool" where
  "orderProtects sd order \<longleftrightarrow>
     Order.status order = JString ''NEW'' \<and> Order.side order = JString (sideName sd)
     \<and> (type order = JString ''STOP'' \<or> type order = JString ''STOP_MARKET'')
     \<and> (Order.closePosition order = JString ''true'' \<or> Order.closePosition order = JBool True
          \<or> gt (parseFloatOf (or_else (origQty order) (Order.quantity order))) (Fin 0))"

text \<open>An alert was recorded for the symbol within the notification interval before \<open>now\<close>.\<close>

definition recordedWithin :: "Config \<Rightarrow> int \<Rightarrow> string \<Rightarrow> Guardian \<Rightarrow> bool" where
  "recordedWithin cfg now symb g =
     (case lastNotify g symb of None \<Rightarrow> False | Some t \<Rightarrow> now - t < telegramInterval cfg)"

text \<open>The close trigger: \<open>pnl < 0 AND abs(pnl) \<ge> maxLossThreshold\<close>.\<close>

definition closeTrigger :: "Config \<Rightarrow> Position \<Rightarrow> bool" where
  "closeTrigger cfg p \<longleftrightarrow>
     lt (Position.pnl p) (Fin 0) \<and> ge (Math_abs (Position.pnl p)) (maxLossUsd cfg)"

text \<open>The three classes of the status of a close order.\<close>

datatype closeOutcome = Filled | NotFullyClosed | UnexpectedStatus

definition classify :: "string \<Rightarrow> closeOutcome" where
  "classify st =
     (if st = ''FILLED'' then Filled
      else if st = ''PARTIALLY_FILLED'' \<or> st = ''NEW'' then NotFullyClosed
      else UnexpectedStatus)"

section \<open>Reading the events\<close>

text \<open>The positions that \<open>closePosition\<close> was called for, in order.\<close>

fun closeCalls :: "event list \<Rightarrow> Position list" where
  "closeCalls [] = []"
| "closeCalls (Call_closePosition p # es) = p # closeCalls es"
| "closeCalls (e # es) = closeCalls es"

text \<open>The number of close orders submitted.\<close>

fun closeOrders :: "event list \<Rightarrow> nat" where
  "closeOrders [] = 0"
| "closeOrders (Request (MarketClose s d q) # es) = Suc (closeOrders es)"
| "closeOrders (e # es) = closeOrders es"

text \<open>The texts handed to \<open>telegram.send\<close>, in order.\<close>

fun notifications :: "event list \<Rightarrow> message list" where
  "notifications [] = []"
| "notifications (Send m # es) = m # notifications es"
| "notifications (e # es) = notifications es"

text \<open>
  The requests with which \<open>closePosition\<close> cancels the orders of a symbol before it
  submits the close order.
\<close>

definition cancellations :: "Exchange \<Rightarrow> string \<Rightarrow> event list" where
  "cancellations api symb =
     Request (CancelAllOrders symb) # Request (OpenAlgoOrders symb) #
       (case getAlgoOrders api symb of Inl e \<Rightarrow> [] | Inr algoOrders \<Rightarrow> cancelLoop api symb algoOrders)"

section \<open>Example values\<close>

text \<open>
  An exchange with three instruments, of step sizes \<open>0.001\<close>, \<open>1\<close> and none for
  \<open>ETHUSDT\<close>, that holds no orders and rejects every close order.
\<close>

definition example_api :: Exchange where
  "example_api =
     \<lparr>getPositions = Inr [],
      exchangeInfo =
        Inr [\<lparr>ExchangeInfoSymbol.symbol = ''BTCUSDT'',
               filters = [\<lparr>filterType = ''LOT_SIZE'', stepSize = Some ''0.001''\<rparr>]\<rparr>,
             \<lparr>ExchangeInfoSymbol.symbol = ''DOGEUSDT'',
               filters = [\<lparr>filterType = ''PRICE_FILTER'', stepSize = None\<rparr>,
                          \<lparr>filterType = ''LOT_SIZE'', stepSize = Some ''1''\<rparr>]\<rparr>],
      getAlgoOrders = (\<lambda>s. Inr []),
      getOpenOrders = (\<lambda>s. Inr []),
      cancelAllOrders = (\<lambda>s. Inr ()),
      cancelAlgoOrder = (\<lambda>s i. Inr ()),
      marketClose = (\<lambda>s d q i. Inl (Error ''HTTP 500: busy''))\<rparr>"

text \<open>The default settings.\<close>

definition example_cfg :: Config where
  "example_cfg = \<lparr>maxLossUsd = Fin 100, dryRun = False, telegramInterval = 30000\<rparr>"

text \<open>A long position of 0.1 BTCUSDT that has lost 150.\<close>

definition btc_long :: Position where
  "btc_long = \<lparr>Position.symbol = ''BTCUSDT'', amt = Fin (1 / 10), Position.pnl = Fin (- 150),
                Position.side = LONG\<rparr>"

text \<open>A short position of 2 ETHUSDT that has lost 40.\<close>

definition eth_short :: Position where
  "eth_short = \<lparr>Position.symbol = ''ETHUSDT'', amt = Fin (- 2), Position.pnl = Fin (- 40),
                 Position.side = SHORT\<rparr>"

text \<open>A stop order of each kind that closes the whole position, and a limit order.\<close>

definition stop_algo :: AlgoOrder where
  "stop_algo = \<lparr>algoId = 1001, AlgoOrder.symbol = ''BTCUSDT'', AlgoOrder.side = SELL,
                 AlgoOrder.quantity = ''0'', orderType = ''STOP_MARKET'', algoStatus = ''NEW'',
                 AlgoOrder.closePosition = Some True\<rparr>"

definition stop_order :: Order where
  "stop_order = \<lparr>Order.status = JString ''NEW'', Order.side = JString ''SELL'',
                  type = JString ''STOP_MARKET'', Order.closePosition = JString ''true'',
                  origQty = JString ''0'', Order.quantity = JUndefined\<rparr>"

definition limit_order :: Order where
  "limit_order = \<lparr>Order.status = JString ''NEW'', Order.side = JString ''SELL'',
                  type = JString ''LIMIT'', Order.closePosition = JBool False,
                  origQty = JString ''0.100'', Order.quantity = JUndefined\<rparr>"

definition network_error :: error where
  "network_error = Error ''fetch failed''"

section \<open>Properties\<close>

subsection \<open>Rounding\<close>

lemma nearestInt_of_int: "nearestInt (of_int n) = n"
  by (simp add: nearestInt_def) linarith


lemma nearestInt_numeral: "nearestInt (numeral n) = numeral n"
  using nearestInt_of_int[of "numeral n"] by simp

lemma nearestInt_zero: "nearestInt 0 = 0"
  using nearestInt_of_int[of 0] by simp

lemma nearestInt_fraction:
  "nearestInt (numeral a / numeral b) = (2 * numeral a + numeral b) div (2 * numeral b)"
proof -
  have "(numeral a :: rat) / numeral b + 1 / 2
          = of_int (2 * numeral a + numeral b) / of_int (2 * numeral b)"
    by (simp add: field_simps)
  then show ?thesis
    unfolding nearestInt_def by (simp only: floor_divide_of_int_eq)
qed





text \<open>
  Claim C10. When the precision cached for the symbol is 0, as it is for a step size
  without fractional digits, \<open>roundQty\<close> rounds the quantity to 6 fractional digits:
  the falsy 0 is replaced by the default of an unknown symbol.
\<close>

theorem roundQty_precision_zero:
  assumes "roundQty api info symb qty = (r, info', tr)"
    and "info' symb = Some 0"
  shows "r = Inr (toFixedValue 6 qty)"
  using assms
  by (auto simp: roundQty_def Let_def precisionFor_def split: if_splits sum.splits)

text \<open>
  \<open>DOGEUSDT\<close> has the step size \<open>1\<close>: the cached precision is 0, and \<open>1.5\<close> stays \<open>1.5\<close>,
  where rounding to no fractional digit gives 2.
\<close>

theorem roundQty_precision_zero_witness:
  "stepPrecision ''1'' = 0
   \<and> roundQty example_api Map.empty ''DOGEUSDT'' (Fin (3 / 2))
       = (Inr (Fin (3 / 2)), [''BTCUSDT'' \<mapsto> 3, ''DOGEUSDT'' \<mapsto> 0], [Request ExchangeInfo])
   \<and> [''BTCUSDT'' \<mapsto> 3, ''DOGEUSDT'' \<mapsto> (0::nat)] ''DOGEUSDT'' = Some 0
   \<and> toFixedValue 6 (Fin (3 / 2)) = Fin (3 / 2)
   \<and> toFixedValue 0 (Fin (3 / 2)) = Fin 2"
proof -
  have h1: "roundQty example_api Map.empty ''DOGEUSDT'' (Fin (3 / 2))
       = (Inr (Fin (3 / 2)), [''BTCUSDT'' \<mapsto> 3, ''DOGEUSDT'' \<mapsto> 0], [Request ExchangeInfo])"
    by (simp add: roundQty_def example_api_def precisionFor_def stepPrecision_def
        nearestInt_numeral nearestInt_fraction numeral_3_eq_3[symmetric])
  have h2: "[''BTCUSDT'' \<mapsto> 3, ''DOGEUSDT'' \<mapsto> (0::nat)] ''DOGEUSDT'' = Some 0"
    by simp
  from roundQty_precision_zero[OF h1 h2] h1 h2 show ?thesis
    by (simp add: stepPrecision_def nearestInt_numeral nearestInt_fraction)
qed

subsection \<open>The alert throttle\<close>

text \<open>
  Claim C8, as stated, fails right after \<open>clearSymbol\<close>: with no alert recorded, at
  the clock reading 1700000000000 and an interval of 2000000000000 milliseconds,
  \<open>shouldNotify\<close> returns \<open>false\<close>, because a missing entry counts as an alert sent at
  time 0.
\<close>

theorem shouldNotify_after_clear_counterexample:
  "\<not> recordedWithin (example_cfg\<lparr>telegramInterval := 2000000000000\<rparr>) 1700000000000 ''BTCUSDT''
        (clearSymbol ''BTCUSDT'' initial)
   \<and> shouldNotify (example_cfg\<lparr>telegramInterval := 2000000000000\<rparr>) 1700000000000 ''BTCUSDT''
        (clearSymbol ''BTCUSDT'' initial)
     = (False, clearSymbol ''BTCUSDT'' initial)"
  by (simp add: shouldNotify_def clearSymbol_def initial_def example_cfg_def recordedWithin_def)

text \<open>
  Claim C8, amended. \<open>shouldNotify\<close> returns \<open>true\<close> exactly when no alert was recorded
  for the symbol within the interval and, when none is recorded at all, the clock
  reading is at least the interval. When it returns \<open>true\<close> it records \<open>now\<close> for the
  symbol and changes nothing else; when it returns \<open>false\<close> it changes nothing. After
  a \<open>true\<close> at \<open>now\<close>, a call at any later time before \<open>now\<close> plus the interval returns
  \<open>false\<close>. Right after \<open>clearSymbol\<close>, it returns \<open>true\<close> when the clock reading is at
  least the interval.
\<close>

theorem shouldNotify_throttle:
  "(fst (shouldNotify cfg now symb g)
      \<longleftrightarrow> \<not> recordedWithin cfg now symb g
          \<and> (lastNotify g symb = None \<longrightarrow> telegramInterval cfg \<le> now))
   \<and> (fst (shouldNotify cfg now symb g)
        \<longrightarrow> snd (shouldNotify cfg now symb g) = g\<lparr>lastNotify := (lastNotify g)(symb \<mapsto> now)\<rparr>)
   \<and> (\<not> fst (shouldNotify cfg now symb g) \<longrightarrow> snd (shouldNotify cfg now symb g) = g)
   \<and> (fst (shouldNotify cfg now symb g) \<and> now \<le> later \<and> later < now + telegramInterval cfg
        \<longrightarrow> shouldNotify cfg later symb (snd (shouldNotify cfg now symb g))
              = (False, snd (shouldNotify cfg now symb g)))
   \<and> (telegramInterval cfg \<le> now
        \<longrightarrow> fst (shouldNotify cfg now symb (clearSymbol symb g)))"
  by (auto simp: shouldNotify_def clearSymbol_def recordedWithin_def Let_def split: option.splits)

text \<open>
  With the default interval: an alert at 1700000000000, none 29999 milliseconds
  later, one again after 30000, and one a millisecond later once the entry is
  cleared.
\<close>

theorem shouldNotify_throttle_witness:
  "shouldNotify example_cfg 1700000000000 ''BTCUSDT'' initial
     = (True, initial\<lparr>lastNotify := [''BTCUSDT'' \<mapsto> 1700000000000]\<rparr>)
   \<and> shouldNotify example_cfg 1700000029999 ''BTCUSDT'' (initial\<lparr>lastNotify := [''BTCUSDT'' \<mapsto> 1700000000000]\<rparr>)
     = (False, initial\<lparr>lastNotify := [''BTCUSDT'' \<mapsto> 1700000000000]\<rparr>)
   \<and> fst (shouldNotify example_cfg 1700000030000 ''BTCUSDT'' (initial\<lparr>lastNotify := [''BTCUSDT'' \<mapsto> 1700000000000]\<rparr>))
   \<and> fst (shouldNotify example_cfg 1700000000001 ''BTCUSDT''
            (clearSymbol ''BTCUSDT'' (initial\<lparr>lastNotify := [''BTCUSDT'' \<mapsto> 1700000000000]\<rparr>)))"
proof -
  let ?g1 = "initial\<lparr>lastNotify := [''BTCUSDT'' \<mapsto> 1700000000000]\<rparr>"
  note first = shouldNotify_throttle[of example_cfg 1700000000000 "''BTCUSDT''" initial 1700000029999]
  note again = shouldNotify_throttle[of example_cfg 1700000030000 "''BTCUSDT''" ?g1]
  note cleared = shouldNotify_throttle[of example_cfg 1700000000001 "''BTCUSDT''" ?g1]
  have a: "shouldNotify example_cfg 1700000000000 ''BTCUSDT'' initial = (True, ?g1)"
    by (simp add: shouldNotify_def initial_def example_cfg_def)
  have c: "shouldNotify example_cfg 1700000029999 ''BTCUSDT'' ?g1 = (False, ?g1)"
    using first unfolding a by (simp add: example_cfg_def initial_def)
  have d: "fst (shouldNotify example_cfg 1700000030000 ''BTCUSDT'' ?g1)"
    using again by (simp add: example_cfg_def recordedWithin_def)
  have e: "fst (shouldNotify example_cfg 1700000000001 ''BTCUSDT'' (clearSymbol ''BTCUSDT'' ?g1))"
    using cleared by (simp add: example_cfg_def)
  from a c d e show ?thesis by simp
qed

subsection \<open>checkSL\<close>

lemma parseFloat_empty: "parseFloat [] = NaN"
  by (simp add: parseFloat_def readSign_def)

lemma parseFloat_zero: "parseFloat ''0'' = Fin 0"
  by (simp add: parseFloat_def readSign_def isWhiteSpace_def isDigit_def exponentPart_def toDouble_def)

lemma gt_NaN [simp]: "\<not> gt NaN x"
  by (simp add: gt_def) (cases x; simp)

lemma gt_zero_zero [simp]: "\<not> gt (Fin 0) (Fin 0)"
  by (simp add: gt_def)

lemma algoLoop_iff: "algoLoop sd orders \<longleftrightarrow> (\<exists>order \<in> set orders. algoProtects sd order)"
  by (induction orders) (auto simp: algoProtects_def parseFloat_empty parseFloat_zero)

lemma not_truthy_not_positive: "\<not> truthy v \<Longrightarrow> \<not> gt (parseFloatOf v) (Fin 0)"
  by (cases v) (auto simp: parseFloat_empty)

lemma quantity_or_zero:
  "gt (parseFloatOf (or_else a (or_else b (JString ''0'')))) (Fin 0)
     \<longleftrightarrow> gt (parseFloatOf (or_else a b)) (Fin 0)"
  using not_truthy_not_positive[of b]
  by (auto simp: or_else_def parseFloat_zero)

lemma ordersLoop_iff: "ordersLoop sd orders \<longleftrightarrow> (\<exists>order \<in> set orders. orderProtects sd order)"
  by (induction orders) (auto simp: orderProtects_def quantity_or_zero Let_def)

text \<open>
  Claim C5. When the conditional orders are fetched and one of them protects,
  \<open>checkSL\<close> returns \<open>true\<close> having sent the first request only. When the conventional
  orders are fetched and one of them protects, \<open>checkSL\<close> returns \<open>true\<close>. \<open>checkSL\<close>
  returns \<open>false\<close> exactly when both lists are fetched and no order of either
  protects. An order protects as \<open>algoProtects\<close> and \<open>orderProtects\<close> say; the close
  flag of a conventional order counts as the string \<open>true\<close> and as the boolean.
\<close>

theorem checkSL_protection:
  "(getAlgoOrders api symb = Inr algoOrders
      \<and> (\<exists>order \<in> set algoOrders. algoProtects (protectiveSide sd) order)
      \<longrightarrow> checkSL api symb sd = (Inr True, [Request (OpenAlgoOrders symb)]))
   \<and> (getOpenOrders api symb = Inr orders
      \<and> (\<exists>order \<in> set orders. orderProtects (protectiveSide sd) order)
      \<longrightarrow> fst (checkSL api symb sd) = Inr True)
   \<and> (fst (checkSL api symb sd) = Inr False \<longleftrightarrow>
        (\<exists>algoOrders orders.
           getAlgoOrders api symb = Inr algoOrders \<and> getOpenOrders api symb = Inr orders
           \<and> (\<forall>order \<in> set algoOrders. \<not> algoProtects (protectiveSide sd) order)
           \<and> (\<forall>order \<in> set orders. \<not> orderProtects (protectiveSide sd) order)))"
proof -
  have side: "(if sd = LONG then SELL else BUY) = protectiveSide sd"
    by (cases sd) (simp_all add: protectiveSide_def)
  show ?thesis
    unfolding checkSL_def Let_def side
    by (cases "getAlgoOrders api symb"; cases "getOpenOrders api symb")
       (auto simp: algoLoop_iff ordersLoop_iff)
qed

text \<open>
  The stop order among the conditional orders of a long position, with the other
  request failing; the stop order after a limit order among the conventional ones;
  a lone limit order; and the same stop order for a short position, where it is on
  the wrong side.
\<close>

theorem checkSL_protection_witness:
  "checkSL (example_api\<lparr>getAlgoOrders := (\<lambda>s. Inr [stop_algo]),
                        getOpenOrders := (\<lambda>s. Inl network_error)\<rparr>) ''BTCUSDT'' LONG
     = (Inr True, [Request (OpenAlgoOrders ''BTCUSDT'')])
   \<and> fst (checkSL (example_api\<lparr>getOpenOrders := (\<lambda>s. Inr [limit_order, stop_order])\<rparr>) ''BTCUSDT'' LONG)
     = Inr True
   \<and> fst (checkSL (example_api\<lparr>getOpenOrders := (\<lambda>s. Inr [limit_order])\<rparr>) ''BTCUSDT'' LONG)
     = Inr False
   \<and> fst (checkSL (example_api\<lparr>getAlgoOrders := (\<lambda>s. Inr [stop_algo])\<rparr>) ''BTCUSDT'' SHORT)
     = Inr False"
proof -
  let ?a = "example_api\<lparr>getAlgoOrders := (\<lambda>s. Inr [stop_algo]),
                        getOpenOrders := (\<lambda>s. Inl network_error)\<rparr>"
  let ?b = "example_api\<lparr>getOpenOrders := (\<lambda>s. Inr [limit_order, stop_order])\<rparr>"
  let ?c = "example_api\<lparr>getOpenOrders := (\<lambda>s. Inr [limit_order])\<rparr>"
  let ?d = "example_api\<lparr>getAlgoOrders := (\<lambda>s. Inr [stop_algo])\<rparr>"
  have p1: "algoProtects (protectiveSide LONG) stop_algo"
    by (simp add: algoProtects_def protectiveSide_def stop_algo_def)
  have p2: "orderProtects (protectiveSide LONG) stop_order"
    by (simp add: orderProtects_def protectiveSide_def stop_order_def)
  have p3: "\<not> orderProtects (protectiveSide LONG) limit_order"
    by (simp add: orderProtects_def protectiveSide_def limit_order_def)
  have p4: "\<not> algoProtects (protectiveSide SHORT) stop_algo"
    by (simp add: algoProtects_def protectiveSide_def stop_algo_def)
  have a: "checkSL ?a ''BTCUSDT'' LONG = (Inr True, [Request (OpenAlgoOrders ''BTCUSDT'')])"
    using checkSL_protection[of ?a "''BTCUSDT''" "[stop_algo]" LONG] p1 by simp
  have b: "fst (checkSL ?b ''BTCUSDT'' LONG) = Inr True"
    using checkSL_protection[of ?b "''BTCUSDT''" _ LONG "[limit_order, stop_order]"] p2 by simp
  have c: "fst (checkSL ?c ''BTCUSDT'' LONG) = Inr False"
    using checkSL_protection[of ?c "''BTCUSDT''" _ LONG] p3 by (simp add: example_api_def)
  have d: "fst (checkSL ?d ''BTCUSDT'' SHORT) = Inr False"
    using checkSL_protection[of ?d "''BTCUSDT''" _ SHORT] p4 by (simp add: example_api_def)
  from a b c d show ?thesis by simp
qed

text \<open>
  Claim C2, as stated, fails: the conditional-order request throws, the conventional
  orders hold a stop order, and \<open>checkSL\<close> returns \<open>true\<close>.
\<close>

theorem checkSL_network_error_counterexample:
  "getAlgoOrders (example_api\<lparr>getAlgoOrders := (\<lambda>s. Inl network_error),
                              getOpenOrders := (\<lambda>s. Inr [stop_order])\<rparr>) ''BTCUSDT''
     = Inl network_error
   \<and> checkSL (example_api\<lparr>getAlgoOrders := (\<lambda>s. Inl network_error),
                          getOpenOrders := (\<lambda>s. Inr [stop_order])\<rparr>) ''BTCUSDT'' LONG
     = (Inr True, [Request (OpenAlgoOrders ''BTCUSDT''), Request (OpenOrders ''BTCUSDT'')])"
  by (simp add: checkSL_def stop_order_def)

text \<open>
  Claim C2, amended. When the conditional-order request throws, or the
  conventional-order request is sent and throws, \<open>checkSL\<close> never returns \<open>false\<close>: it
  returns \<open>true\<close> when the conventional orders were fetched and one of them protects,
  and throws \<open>Network error\<close> otherwise.
\<close>

theorem checkSL_network_error:
  assumes "getAlgoOrders api symb = Inl e
           \<or> (Request (OpenOrders symb) \<in> set (snd (checkSL api symb sd))
               \<and> getOpenOrders api symb = Inl e')"
  shows "fst (checkSL api symb sd) \<noteq> Inr False
         \<and> (fst (checkSL api symb sd) = Inr True \<longleftrightarrow>
              (\<exists>orders. getOpenOrders api symb = Inr orders
                 \<and> (\<exists>order \<in> set orders. orderProtects (protectiveSide sd) order)))
         \<and> (fst (checkSL api symb sd) \<noteq> Inr True
              \<longrightarrow> fst (checkSL api symb sd) = Inl (Error ''Network error''))"
proof -
  have side: "(if sd = LONG then SELL else BUY) = protectiveSide sd"
    by (cases sd) (simp_all add: protectiveSide_def)
  show ?thesis
    using assms unfolding checkSL_def Let_def side
    by (cases "getAlgoOrders api symb"; cases "getOpenOrders api symb")
       (auto simp: algoLoop_iff ordersLoop_iff split: if_splits)
qed

text \<open>
  The conditional-order request throws and the conventional orders hold a limit
  order only; and the conditional orders are empty and the other request throws.
\<close>

theorem checkSL_network_error_witness:
  "checkSL (example_api\<lparr>getAlgoOrders := (\<lambda>s. Inl network_error),
                        getOpenOrders := (\<lambda>s. Inr [limit_order])\<rparr>) ''BTCUSDT'' LONG
     = (Inl (Error ''Network error''), [Request (OpenAlgoOrders ''BTCUSDT''), Request (OpenOrders ''BTCUSDT'')])
   \<and> checkSL (example_api\<lparr>getOpenOrders := (\<lambda>s. Inl network_error)\<rparr>) ''BTCUSDT'' LONG
     = (Inl (Error ''Network error''), [Request (OpenAlgoOrders ''BTCUSDT''), Request (OpenOrders ''BTCUSDT'')])"
proof -
  let ?a = "example_api\<lparr>getAlgoOrders := (\<lambda>s. Inl network_error),
                        getOpenOrders := (\<lambda>s. Inr [limit_order])\<rparr>"
  let ?b = "example_api\<lparr>getOpenOrders := (\<lambda>s. Inl network_error)\<rparr>"
  have p3: "\<not> orderProtects (protectiveSide LONG) limit_order"
    by (simp add: orderProtects_def protectiveSide_def limit_order_def)
  have ta: "snd (checkSL ?a ''BTCUSDT'' LONG) = [Request (OpenAlgoOrders ''BTCUSDT''), Request (OpenOrders ''BTCUSDT'')]"
    by (simp add: checkSL_def)
  have tb: "snd (checkSL ?b ''BTCUSDT'' LONG) = [Request (OpenAlgoOrders ''BTCUSDT''), Request (OpenOrders ''BTCUSDT'')]"
    by (simp add: checkSL_def example_api_def)
  have a: "fst (checkSL ?a ''BTCUSDT'' LONG) = Inl (Error ''Network error'')"
    using checkSL_network_error[of ?a "''BTCUSDT''" network_error LONG] p3 by simp
  have b: "fst (checkSL ?b ''BTCUSDT'' LONG) = Inl (Error ''Network error'')"
    using checkSL_network_error[of ?b "''BTCUSDT''" _ LONG network_error] tb by simp
  from a b ta tb show ?thesis by (simp add: prod_eq_iff)
qed

subsection \<open>check\<close>







subsection \<open>The events of the close protocol\<close>

lemma closeCalls_append: "closeCalls (a @ b) = closeCalls a @ closeCalls b"
  by (induction a rule: closeCalls.induct) simp_all

lemma closeCalls_retry_from:
  assumes "\<And>i. closeCalls (snd (fn i)) = []"
  shows "closeCalls (snd (retry_from fn attempts delayMs name i lastError)) = []"
  using assms
proof (induction fn attempts delayMs name i lastError rule: retry_from.induct)
  case (1 fn attempts delayMs name i lastError)
  show ?case
  proof (cases "i \<le> attempts")
    case False
    then show ?thesis by (simp add: retry_from.simps)
  next
    case True
    obtain res tr where f: "fn i = (res, tr)" by (cases "fn i")
    have tr: "closeCalls tr = []" using "1.prems"[of i] f by simp
    show ?thesis
    proof (cases res)
      case (Inr v)
      with True f tr show ?thesis by (simp add: retry_from.simps)
    next
      case (Inl e)
      have "closeCalls (snd (retry_from fn attempts delayMs name (Suc i) (Some e))) = []"
        using "1.IH"[OF True f[symmetric] Inl] "1.prems" by simp
      with True f tr Inl show ?thesis
        by (simp add: retry_from.simps[of fn attempts delayMs name i] split_beta closeCalls_append)
    qed
  qed
qed

lemma closeCalls_cancelLoop: "closeCalls (cancelLoop api symb orders) = []"
  by (induction orders) (auto split: sum.splits)

lemma closeCalls_roundQty: "closeCalls (snd (snd (roundQty api info symb qty))) = []"
  by (auto simp: roundQty_def Let_def split: sum.splits)

lemma closeCalls_reportResult: "closeCalls (reportResult pos result) = []"
  by (simp add: reportResult_def)

lemma closeCalls_closePosition: "closeCalls (snd (snd (closePosition api cfg pos g))) = []"
proof -
  obtain rounded info tr0 where
    r: "roundQty api (symbolInfo g) (Position.symbol pos) (Math_abs (amt pos)) = (rounded, info, tr0)"
    by (cases "roundQty api (symbolInfo g) (Position.symbol pos) (Math_abs (amt pos))") auto
  have t0: "closeCalls tr0 = []"
    using closeCalls_roundQty[of api "symbolInfo g" "Position.symbol pos" "Math_abs (amt pos)"] r by simp
  show ?thesis
  proof (cases rounded)
    case (Inl e)
    with r t0 show ?thesis by (simp add: closePosition_def)
  next
    case (Inr qty)
    let ?sd = "if gt (amt pos) (Fin 0) then SELL else BUY"
    let ?fn = "\<lambda>i. (marketClose api (Position.symbol pos) ?sd qty i,
                       [Request (MarketClose (Position.symbol pos) ?sd qty)])"
    have t3: "closeCalls (snd (retry ?fn 3 500 (''close '' @ Position.symbol pos))) = []"
      unfolding retry_def by (rule closeCalls_retry_from) simp
    obtain closed tr3 where c: "retry ?fn 3 500 (''close '' @ Position.symbol pos) = (closed, tr3)"
      by (cases "retry ?fn 3 500 (''close '' @ Position.symbol pos)")
    with t3 have t3': "closeCalls tr3 = []" by simp
    show ?thesis
      using r Inr t0 t3' c
      by (auto simp: closePosition_def Let_def closeCalls_append closeCalls_cancelLoop
            closeCalls_reportResult split: sum.splits option.splits error.splits)
  qed
qed

lemma closeOrders_append: "closeOrders (a @ b) = closeOrders a + closeOrders b"
  by (induction a rule: closeOrders.induct) simp_all

lemma closeOrders_retry_from:
  assumes "\<And>i. closeOrders (snd (fn i)) = 1"
  shows "closeOrders (snd (retry_from fn attempts delayMs name i lastError)) \<le> Suc attempts - i"
  using assms
proof (induction fn attempts delayMs name i lastError rule: retry_from.induct)
  case (1 fn attempts delayMs name i lastError)
  show ?case
  proof (cases "i \<le> attempts")
    case False
    then show ?thesis by (simp add: retry_from.simps)
  next
    case True
    obtain res tr where f: "fn i = (res, tr)" by (cases "fn i")
    have tr: "closeOrders tr = 1" using "1.prems"[of i] f by simp
    show ?thesis
    proof (cases res)
      case (Inr v)
      with True f tr show ?thesis by (simp add: retry_from.simps)
    next
      case (Inl e)
      have "closeOrders (snd (retry_from fn attempts delayMs name (Suc i) (Some e)))
              \<le> Suc attempts - Suc i"
        using "1.IH"[OF True f[symmetric] Inl] "1.prems" by simp
      with True f tr Inl show ?thesis
        by (auto simp: retry_from.simps[of fn attempts delayMs name i] split_beta closeOrders_append)
    qed
  qed
qed

lemma closeOrders_cancelLoop: "closeOrders (cancelLoop api symb orders) = 0"
  by (induction orders) (auto split: sum.splits)

lemma closeOrders_roundQty: "closeOrders (snd (snd (roundQty api info symb qty))) = 0"
  by (auto simp: roundQty_def Let_def split: sum.splits)

lemma closeOrders_reportResult: "closeOrders (reportResult pos result) = 0"
  by (simp add: reportResult_def)

lemma closeOrders_closePosition: "closeOrders (snd (snd (closePosition api cfg pos g))) \<le> 3"
proof -
  obtain rounded info tr0 where
    r: "roundQty api (symbolInfo g) (Position.symbol pos) (Math_abs (amt pos)) = (rounded, info, tr0)"
    by (cases "roundQty api (symbolInfo g) (Position.symbol pos) (Math_abs (amt pos))") auto
  have t0: "closeOrders tr0 = 0"
    using closeOrders_roundQty[of api "symbolInfo g" "Position.symbol pos" "Math_abs (amt pos)"] r by simp
  show ?thesis
  proof (cases rounded)
    case (Inl e)
    with r t0 show ?thesis by (simp add: closePosition_def)
  next
    case (Inr qty)
    let ?sd = "if gt (amt pos) (Fin 0) then SELL else BUY"
    let ?fn = "\<lambda>i. (marketClose api (Position.symbol pos) ?sd qty i,
                       [Request (MarketClose (Position.symbol pos) ?sd qty)])"
    have "closeOrders (snd (retry ?fn 3 500 (''close '' @ Position.symbol pos))) \<le> Suc 3 - 1"
      unfolding retry_def by (rule closeOrders_retry_from) simp
    then have t3: "closeOrders (snd (retry ?fn 3 500 (''close '' @ Position.symbol pos))) \<le> 3"
      by simp
    obtain closed tr3 where c: "retry ?fn 3 500 (''close '' @ Position.symbol pos) = (closed, tr3)"
      by (cases "retry ?fn 3 500 (''close '' @ Position.symbol pos)")
    with t3 have t3': "closeOrders tr3 \<le> 3" by simp
    show ?thesis
      using r Inr t0 t3' c
      by (auto simp: closePosition_def Let_def closeOrders_append closeOrders_cancelLoop
            closeOrders_reportResult split: sum.splits option.splits error.splits)
  qed
qed

lemma notifications_append: "notifications (a @ b) = notifications a @ notifications b"
  by (induction a rule: notifications.induct) simp_all

lemma notifications_retry_from:
  assumes "\<And>i. notifications (snd (fn i)) = []"
  shows "notifications (snd (retry_from fn attempts delayMs name i lastError)) = []"
  using assms
proof (induction fn attempts delayMs name i lastError rule: retry_from.induct)
  case (1 fn attempts delayMs name i lastError)
  show ?case
  proof (cases "i \<le> attempts")
    case False
    then show ?thesis by (simp add: retry_from.simps)
  next
    case True
    obtain res tr where f: "fn i = (res, tr)" by (cases "fn i")
    have tr: "notifications tr = []" using "1.prems"[of i] f by simp
    show ?thesis
    proof (cases res)
      case (Inr v)
      with True f tr show ?thesis by (simp add: retry_from.simps)
    next
      case (Inl e)
      have "notifications (snd (retry_from fn attempts delayMs name (Suc i) (Some e))) = []"
        using "1.IH"[OF True f[symmetric] Inl] "1.prems" by simp
      with True f tr Inl show ?thesis
        by (simp add: retry_from.simps[of fn attempts delayMs name i] split_beta notifications_append)
    qed
  qed
qed

lemma notifications_cancelLoop: "notifications (cancelLoop api symb orders) = []"
  by (induction orders) (auto split: sum.splits)

lemma notifications_roundQty: "notifications (snd (snd (roundQty api info symb qty))) = []"
  by (auto simp: roundQty_def Let_def split: sum.splits)

lemma cancellations_quiet:
  "notifications (cancellations api symb) = [] \<and> closeOrders (cancellations api symb) = 0"
  by (simp add: cancellations_def notifications_cancelLoop closeOrders_cancelLoop split: sum.splits)

subsection \<open>retry and closePosition\<close>

lemma retry_from_fail_step:
  assumes "fn i = (Inl e, t)" and "i < attempts"
  shows "retry_from fn attempts d n i lastError =
           (fst (retry_from fn attempts d n (Suc i) (Some e)),
            t @ [Log WRN (L_Retry n i attempts d), Sleep d]
              @ snd (retry_from fn attempts d n (Suc i) (Some e)))"
  using assms by (simp add: retry_from.simps[of fn attempts d n i] split_beta)

lemma retry_from_fail_last:
  assumes "fn attempts = (Inl e, t)"
  shows "retry_from fn attempts d n attempts lastError = (Inl (Some e), t)"
  using assms
  by (simp add: retry_from.simps[of fn attempts d n attempts]
      retry_from.simps[of fn attempts d n "Suc attempts"])

lemma retry_all_fail:
  assumes "fn 1 = (Inl e1, t1)" "fn 2 = (Inl e2, t2)" "fn 3 = (Inl e3, t3)"
  shows "retry fn 3 d n =
           (Inl (Some e3),
            t1 @ [Log WRN (L_Retry n 1 3 d), Sleep d] @ t2 @ [Log WRN (L_Retry n 2 3 d), Sleep d] @ t3)"
proof -
  have s3: "retry_from fn 3 d n 3 (Some e2) = (Inl (Some e3), t3)"
    using assms(3) by (rule retry_from_fail_last[where fn = fn and attempts = 3])
  have s2: "retry_from fn 3 d n 2 (Some e1)
             = (Inl (Some e3), t2 @ [Log WRN (L_Retry n 2 3 d), Sleep d] @ t3)"
    using retry_from_fail_step[where fn = fn and i = 2 and attempts = 3 and d = d and n = n
        and lastError = "Some e1", OF assms(2)] s3 by simp
  show ?thesis
    unfolding retry_def
    using retry_from_fail_step[where fn = fn and i = 1 and attempts = 3 and d = d and n = n
        and lastError = None, OF assms(1)] s2
    by (simp add: numeral_2_eq_2[symmetric])
qed

lemma retry_from_success:
  assumes "fn k = (Inr v, t)" and "k \<le> attempts"
    and "\<And>j. i \<le> j \<Longrightarrow> j < k \<Longrightarrow> \<exists>e. fst (fn j) = Inl e"
    and "i \<le> k"
  shows "fst (retry_from fn attempts d n i lastError) = Inr v"
  using assms
proof (induction "k - i" arbitrary: i lastError)
  case 0
  then have "i = k" by simp
  with 0 show ?case by (simp add: retry_from.simps[of fn attempts d n k])
next
  case (Suc m)
  then have lt: "i < k" by simp
  then obtain e where e: "fst (fn i) = Inl e" using Suc.prems(3)[of i] by auto
  obtain tr where f: "fn i = (Inl e, tr)" using e by (cases "fn i") auto
  have "fst (retry_from fn attempts d n (Suc i) (Some e)) = Inr v"
    using Suc.hyps(1)[of "Suc i" "Some e"] Suc.hyps(2) Suc.prems lt by simp
  with f lt Suc.prems(2) show ?case
    by (simp add: retry_from.simps[of fn attempts d n i] split_beta)
qed

lemma closePosition_live:
  assumes "\<not> dryRun cfg"
    and "roundQty api (symbolInfo g) (Position.symbol pos) (Math_abs (amt pos)) = (Inr qty, info, tr0)"
    and "retry (\<lambda>i. (marketClose api (Position.symbol pos)
                         (if gt (amt pos) (Fin 0) then SELL else BUY) qty i,
                       [Request (MarketClose (Position.symbol pos)
                         (if gt (amt pos) (Fin 0) then SELL else BUY) qty)]))
           3 500 (''close '' @ Position.symbol pos) = (outcome, tr3)"
  shows "closePosition api cfg pos g =
     (case outcome of
        Inr result \<Rightarrow>
          (Inr (), g\<lparr>symbolInfo := info\<rparr>,
           tr0 @ cancellations api (Position.symbol pos) @ tr3 @ reportResult pos result)
      | Inl None \<Rightarrow>
          (Inl (Error ''TypeError''), g\<lparr>symbolInfo := info\<rparr>,
           tr0 @ cancellations api (Position.symbol pos) @ tr3)
      | Inl (Some (Error msg)) \<Rightarrow>
          (Inr (), g\<lparr>symbolInfo := info\<rparr>,
           tr0 @ cancellations api (Position.symbol pos) @ tr3 @
             [Log ERR (L_Failed (Position.symbol pos) msg),
              Send (T_Error (Position.symbol pos) (take 100 msg))]))"
  using assms
  by (simp add: closePosition_def Let_def cancellations_def
           split: sum.splits option.splits error.splits)

lemma closePosition_frame:
  "Guardian.positions (fst (snd (closePosition api cfg pos g))) = Guardian.positions g
   \<and> paused (fst (snd (closePosition api cfg pos g))) = paused g"
  by (auto simp: closePosition_def Let_def split_beta split: sum.splits option.splits error.splits)

lemma roundQty_btc:
  "roundQty (example_api\<lparr>marketClose := mc\<rparr>) (symbolInfo initial) (Position.symbol btc_long)
      (Math_abs (amt btc_long))
     = (Inr (Fin (1 / 10)), [''BTCUSDT'' \<mapsto> 3, ''DOGEUSDT'' \<mapsto> 0], [Request ExchangeInfo])"
  by (simp add: roundQty_def example_api_def initial_def btc_long_def precisionFor_def
      stepPrecision_def nearestInt_numeral nearestInt_fraction numeral_3_eq_3[symmetric])

subsection \<open>tick\<close>

lemma closeLoop_frame:
  "Guardian.positions (fst (snd (closeLoop api cfg ps g))) = Guardian.positions g
   \<and> paused (fst (snd (closeLoop api cfg ps g))) = paused g"
proof (induction ps arbitrary: g)
  case Nil
  then show ?case by simp
next
  case (Cons pos rest)
  obtain r g1 tr where c: "closePosition api cfg pos g = (r, g1, tr)"
    by (cases "closePosition api cfg pos g") auto
  have f: "Guardian.positions g1 = Guardian.positions g \<and> paused g1 = paused g"
    using closePosition_frame[of api cfg pos g] c by simp
  show ?case
    using Cons.IH[of g] Cons.IH[of g1] c f
    by (cases r) (auto simp: Let_def split_beta)
qed

lemma closeLoop_calls:
  "\<exists>skipped. filter (closeTrigger cfg) ps = closeCalls (snd (snd (closeLoop api cfg ps g))) @ skipped
      \<and> (fst (closeLoop api cfg ps g) = Inr () \<longrightarrow> skipped = [])"
proof (induction ps arbitrary: g)
  case Nil
  then show ?case by simp
next
  case (Cons pos rest)
  show ?case
  proof (cases "closeTrigger cfg pos")
    case False
    then have "\<not> (lt (Position.pnl pos) (Fin 0) \<and> ge (Math_abs (Position.pnl pos)) (maxLossUsd cfg))"
      by (simp add: closeTrigger_def)
    with False show ?thesis using Cons.IH[of g] by (auto simp: Let_def)
  next
    case True
    then have cond: "lt (Position.pnl pos) (Fin 0)" "ge (Math_abs (Position.pnl pos)) (maxLossUsd cfg)"
      by (simp_all add: closeTrigger_def)
    obtain r g1 tr where c: "closePosition api cfg pos g = (r, g1, tr)"
      by (cases "closePosition api cfg pos g") auto
    have t: "closeCalls tr = []" using closeCalls_closePosition[of api cfg pos g] c by simp
    show ?thesis
    proof (cases r)
      case (Inl e)
      with True cond c t show ?thesis by (simp add: Let_def)
    next
      case (Inr u)
      obtain skipped where
        "filter (closeTrigger cfg) rest = closeCalls (snd (snd (closeLoop api cfg rest g1))) @ skipped"
        "fst (closeLoop api cfg rest g1) = Inr () \<longrightarrow> skipped = []"
        using Cons.IH[of g1] by blast
      with True cond c t Inr show ?thesis
        by (simp add: Let_def split_beta closeCalls_append)
    qed
  qed
qed

lemma closeCalls_printPositions: "closeCalls (snd (printPositions now g)) = []"
proof -
  have "closeCalls (map f ps) = []" if "\<And>p. \<exists>l. f p = Log INFO l" for f :: "Position \<Rightarrow> event" and ps
    using that by (induction ps) (auto, metis closeCalls.simps(5))
  then show ?thesis by (auto simp: printPositions_def Let_def)
qed

lemma printPositions_frame:
  "Guardian.positions (fst (printPositions now g)) = Guardian.positions g
   \<and> paused (fst (printPositions now g)) = paused g"
  by (simp add: printPositions_def Let_def)

lemma tick_Inr:
  assumes "getPositions api = Inr ps"
  shows "tick api cfg now g =
     (let g1 = fst (printPositions now (g\<lparr>Guardian.positions := ps\<rparr>));
          tr1 = snd (printPositions now (g\<lparr>Guardian.positions := ps\<rparr>))
      in if paused g then (Inr (), g1, Request PositionRisk # tr1)
         else (fst (closeLoop api cfg ps g1), fst (snd (closeLoop api cfg ps g1)),
               Request PositionRisk # tr1 @ snd (snd (closeLoop api cfg ps g1))))"
  using assms printPositions_frame[of now "g\<lparr>Guardian.positions := ps\<rparr>"]
  by (simp add: tick_def Let_def split_beta)

lemma closeLoop_single:
  "closeTrigger cfg pos \<Longrightarrow> closeCalls (snd (snd (closeLoop api cfg [pos] g))) = [pos]"
proof -
  assume t: "closeTrigger cfg pos"
  then have cond: "lt (Position.pnl pos) (Fin 0)" "ge (Math_abs (Position.pnl pos)) (maxLossUsd cfg)"
    by (simp_all add: closeTrigger_def)
  obtain r g1 tr where c: "closePosition api cfg pos g = (r, g1, tr)"
    by (cases "closePosition api cfg pos g") auto
  have "closeCalls tr = []" using closeCalls_closePosition[of api cfg pos g] c by simp
  with cond c show ?thesis by (cases r) (simp_all add: Let_def)
qed

text \<open>
  Claim C1, as stated, fails: after \<open>/pause\<close>, a tick fetches the long position that
  has lost 150 against a threshold of 100, prints it, and calls \<open>closePosition\<close> for
  no position.
\<close>

theorem tick_paused_counterexample:
  "closeTrigger example_cfg btc_long
   \<and> tick (example_api\<lparr>getPositions := Inr [btc_long]\<rparr>) example_cfg 1700000000000 (fst (cmdPause initial))
     = (Inr (),
        initial\<lparr>paused := True, Guardian.positions := [btc_long], lastPrint := 1700000000000\<rparr>,
        [Request PositionRisk, Log INFO (L_Position ''BTCUSDT'' LONG (Fin (- 150)) ''[?]'')])
   \<and> closeCalls [Request PositionRisk, Log INFO (L_Position ''BTCUSDT'' LONG (Fin (- 150)) ''[?]'')] = []"
  by (simp add: closeTrigger_def example_cfg_def btc_long_def tick_def printPositions_def
      cmdPause_def initial_def slStr_def)

text \<open>
  Claim C1, amended. On a tick, \<open>closePosition\<close> is called only for positions of the
  snapshot just fetched that satisfy the close trigger, and only when the guardian
  is not paused. When the guardian is not paused and the tick returns without an
  error, the calls are exactly the positions of the snapshot that satisfy the
  trigger, once for each entry, in order. For finite numbers the trigger is
  \<open>pnl < 0\<close> and \<open>\<bar>pnl\<bar> \<ge> threshold\<close>.
\<close>

theorem tick_close_trigger:
  assumes "tick api cfg now g = (r, g', tr)"
  shows "(\<forall>p \<in> set (closeCalls tr).
            closeTrigger cfg p \<and> p \<in> set (Guardian.positions g')
            \<and> getPositions api = Inr (Guardian.positions g') \<and> \<not> paused g)
       \<and> (r = Inr () \<and> \<not> paused g
            \<longrightarrow> getPositions api = Inr (Guardian.positions g')
                \<and> closeCalls tr = filter (closeTrigger cfg) (Guardian.positions g'))
       \<and> (Position.pnl q = Fin x \<and> maxLossUsd cfg = Fin m
            \<longrightarrow> (closeTrigger cfg q \<longleftrightarrow> x < 0 \<and> m \<le> \<bar>x\<bar>))"
proof -
  have third: "Position.pnl q = Fin x \<and> maxLossUsd cfg = Fin m
            \<longrightarrow> (closeTrigger cfg q \<longleftrightarrow> x < 0 \<and> m \<le> \<bar>x\<bar>)"
    by (auto simp: closeTrigger_def)
  have "(\<forall>p \<in> set (closeCalls tr).
            closeTrigger cfg p \<and> p \<in> set (Guardian.positions g')
            \<and> getPositions api = Inr (Guardian.positions g') \<and> \<not> paused g)
       \<and> (r = Inr () \<and> \<not> paused g
            \<longrightarrow> getPositions api = Inr (Guardian.positions g')
                \<and> closeCalls tr = filter (closeTrigger cfg) (Guardian.positions g'))"
  proof (cases "getPositions api")
    case (Inl e)
    with assms have "tr = [Request PositionRisk]" "r = Inl e"
      by (simp_all add: tick_def)
    then show ?thesis by simp
  next
    case (Inr ps)
    let ?g1 = "fst (printPositions now (g\<lparr>Guardian.positions := ps\<rparr>))"
    let ?tr1 = "snd (printPositions now (g\<lparr>Guardian.positions := ps\<rparr>))"
    have p1: "Guardian.positions ?g1 = ps"
      using printPositions_frame[of now "g\<lparr>Guardian.positions := ps\<rparr>"] by simp
    have c1: "closeCalls ?tr1 = []" by (rule closeCalls_printPositions)
    note t = assms[unfolded tick_Inr[OF Inr] Let_def]
    show ?thesis
    proof (cases "paused g")
      case True
      with t have "tr = Request PositionRisk # ?tr1" by simp
      with c1 have "closeCalls tr = []" by simp
      with True show ?thesis by simp
    next
      case False
      obtain skipped where
        sk: "filter (closeTrigger cfg) ps = closeCalls (snd (snd (closeLoop api cfg ps ?g1))) @ skipped"
            "fst (closeLoop api cfg ps ?g1) = Inr () \<longrightarrow> skipped = []"
        using closeLoop_calls[of cfg ps api ?g1] by blast
      from t False have r: "r = fst (closeLoop api cfg ps ?g1)"
        and g': "g' = fst (snd (closeLoop api cfg ps ?g1))"
        and tr0: "tr = Request PositionRisk # ?tr1 @ snd (snd (closeLoop api cfg ps ?g1))"
        by simp_all
      have pos: "Guardian.positions g' = ps"
        unfolding g' using closeLoop_frame[of api cfg ps ?g1] p1 by simp
      have tr: "closeCalls tr = closeCalls (snd (snd (closeLoop api cfg ps ?g1)))"
        unfolding tr0 using c1 by (simp add: closeCalls_append)
      have sub: "set (closeCalls tr) \<subseteq> set (filter (closeTrigger cfg) ps)"
        unfolding tr sk(1) by simp
      have "\<forall>p \<in> set (closeCalls tr). closeTrigger cfg p \<and> p \<in> set ps"
        using sub by auto
      moreover have "r = Inr () \<longrightarrow> closeCalls tr = filter (closeTrigger cfg) ps"
        using sk r tr by simp
      ultimately show ?thesis unfolding pos using Inr False by blast
    qed
  qed
  with third show ?thesis by blast
qed

text \<open>
  A tick on a short position that has lost 40 and a long position that has lost
  150, with a threshold of 100 and an exchange that fills the close order:
  \<open>closePosition\<close> is called for the long position only.
\<close>

theorem tick_close_trigger_witness:
  "tick (example_api\<lparr>getPositions := Inr [eth_short, btc_long]\<rparr>
          \<lparr>marketClose := (\<lambda>s d q i. Inr \<lparr>orderId = 77, OrderResult.status = ''FILLED''\<rparr>)\<rparr>)
        example_cfg 1700000000000 initial
     = (Inr (),
        initial\<lparr>symbolInfo := [''BTCUSDT'' \<mapsto> 3, ''DOGEUSDT'' \<mapsto> 0],
                Guardian.positions := [eth_short, btc_long], lastPrint := 1700000000000\<rparr>,
        [Request PositionRisk,
         Log INFO (L_Position ''ETHUSDT'' SHORT (Fin (- 40)) ''[?]''),
         Log INFO (L_Position ''BTCUSDT'' LONG (Fin (- 150)) ''[?]''),
         Log ERR (L_Closing ''BTCUSDT'' (Fin 150) (Fin 100)),
         Call_closePosition btc_long,
         Request ExchangeInfo, Request (CancelAllOrders ''BTCUSDT''),
         Request (OpenAlgoOrders ''BTCUSDT''),
         Request (MarketClose ''BTCUSDT'' SELL (Fin (1 / 10))),
         Log OK (L_Closed ''BTCUSDT'' 77),
         Send (T_Closed ''BTCUSDT'' (Fin (- 150)) 77)])
   \<and> filter (closeTrigger example_cfg) [eth_short, btc_long] = [btc_long]
   \<and> closeTrigger example_cfg btc_long \<and> \<not> closeTrigger example_cfg eth_short
   \<and> \<not> paused initial"
proof -
  let ?api = "example_api\<lparr>getPositions := Inr [eth_short, btc_long]\<rparr>
          \<lparr>marketClose := (\<lambda>s d q i. Inr \<lparr>orderId = 77, OrderResult.status = ''FILLED''\<rparr>)\<rparr>"
  have t: "tick ?api example_cfg 1700000000000 initial
     = (Inr (),
        initial\<lparr>symbolInfo := [''BTCUSDT'' \<mapsto> 3, ''DOGEUSDT'' \<mapsto> 0],
                Guardian.positions := [eth_short, btc_long], lastPrint := 1700000000000\<rparr>,
        [Request PositionRisk,
         Log INFO (L_Position ''ETHUSDT'' SHORT (Fin (- 40)) ''[?]''),
         Log INFO (L_Position ''BTCUSDT'' LONG (Fin (- 150)) ''[?]''),
         Log ERR (L_Closing ''BTCUSDT'' (Fin 150) (Fin 100)),
         Call_closePosition btc_long,
         Request ExchangeInfo, Request (CancelAllOrders ''BTCUSDT''),
         Request (OpenAlgoOrders ''BTCUSDT''),
         Request (MarketClose ''BTCUSDT'' SELL (Fin (1 / 10))),
         Log OK (L_Closed ''BTCUSDT'' 77),
         Send (T_Closed ''BTCUSDT'' (Fin (- 150)) 77)])"
    by (simp add: tick_def printPositions_def initial_def slStr_def eth_short_def btc_long_def
        example_cfg_def closePosition_def roundQty_def example_api_def precisionFor_def
        stepPrecision_def gt_def nearestInt_numeral nearestInt_fraction nearestInt_zero
        retry_def retry_from.simps reportResult_def numeral_3_eq_3[symmetric] Let_def)
  have np: "\<not> paused initial" by (simp add: initial_def)
  from tick_close_trigger[OF t, of btc_long "- 150" 100] np
  have "closeCalls [Request PositionRisk,
         Log INFO (L_Position ''ETHUSDT'' SHORT (Fin (- 40)) ''[?]''),
         Log INFO (L_Position ''BTCUSDT'' LONG (Fin (- 150)) ''[?]''),
         Log ERR (L_Closing ''BTCUSDT'' (Fin 150) (Fin 100)),
         Call_closePosition btc_long,
         Request ExchangeInfo, Request (CancelAllOrders ''BTCUSDT''),
         Request (OpenAlgoOrders ''BTCUSDT''),
         Request (MarketClose ''BTCUSDT'' SELL (Fin (1 / 10))),
         Log OK (L_Closed ''BTCUSDT'' 77),
         Send (T_Closed ''BTCUSDT'' (Fin (- 150)) 77)]
        = filter (closeTrigger example_cfg) [eth_short, btc_long]"
    and "closeTrigger example_cfg btc_long"
    by (simp_all add: btc_long_def example_cfg_def)
  moreover have "\<not> closeTrigger example_cfg eth_short"
    by (simp add: closeTrigger_def eth_short_def example_cfg_def)
  ultimately show ?thesis using t np by simp
qed

subsection \<open>Pause\<close>

lemma evict_paused: "evict ps (g\<lparr>paused := b\<rparr>) = (evict ps g)\<lparr>paused := b\<rparr>"
  by (simp add: evict_def cong: if_cong)

lemma checkPosition_paused:
  "checkPosition api cfg now pos (g\<lparr>paused := b\<rparr>)
     = ((fst (checkPosition api cfg now pos g))\<lparr>paused := b\<rparr>, snd (checkPosition api cfg now pos g))"
  by (cases "checkSL api (Position.symbol pos) (Position.side pos)")
     (auto simp: checkPosition_def shouldNotify_def clearSymbol_def Let_def
           split: sum.splits option.splits)

lemma checkPositions_paused:
  "checkPositions api cfg now ps (g\<lparr>paused := b\<rparr>)
     = ((fst (checkPositions api cfg now ps g))\<lparr>paused := b\<rparr>, snd (checkPositions api cfg now ps g))"
proof (induction ps arbitrary: g)
  case Nil
  then show ?case by simp
next
  case (Cons pos rest)
  show ?case
    by (simp add: checkPosition_paused Cons.IH split_beta)
qed

lemma check_paused:
  "check api cfg now (g\<lparr>paused := b\<rparr>)
     = ((fst (check api cfg now g))\<lparr>paused := b\<rparr>, snd (check api cfg now g))"
  by (simp add: check_def evict_paused checkPositions_paused)

lemma printPositions_paused:
  "printPositions now (g\<lparr>paused := b\<rparr>)
     = ((fst (printPositions now g))\<lparr>paused := b\<rparr>, snd (printPositions now g))"
  by (simp add: printPositions_def Let_def)

lemma printPositions_events:
  "e \<in> set (snd (printPositions now g)) \<Longrightarrow> \<exists>line. e = Log INFO line"
  by (auto simp: printPositions_def Let_def split: if_splits)

text \<open>
  Claim C7. A tick of the paused guardian sends the position request and prints,
  and does nothing else: no cancellation, no close order, no notification. It stays
  paused. When the positions are fetched the tick returns normally, the snapshot is
  the fetched list, the events are those that begin the tick of the guardian when
  it is not paused, and the status lists every position of the snapshot with its
  pnl. A detection cycle does what it does when not paused.
\<close>

theorem tick_paused:
  assumes "paused g" and "tick api cfg now g = (r, g', tr)"
  shows "(\<forall>e \<in> set tr. e = Request PositionRisk \<or> (\<exists>line. e = Log INFO line))
     \<and> paused g'
     \<and> (\<forall>ps. getPositions api = Inr ps \<longrightarrow>
           r = Inr () \<and> Guardian.positions g' = ps
           \<and> tr = Request PositionRisk # snd (printPositions now (g\<lparr>Guardian.positions := ps\<rparr>))
           \<and> (\<exists>rest. snd (snd (tick api cfg now (g\<lparr>paused := False\<rparr>))) = tr @ rest)
           \<and> map (\<lambda>e. (StatusEntry.symbol e, StatusEntry.pnl e)) (StatusInfo.positions (getStatusInfo g'))
               = map (\<lambda>p. (Position.symbol p, Position.pnl p)) ps)
     \<and> check api cfg later g
         = ((fst (check api cfg later (g\<lparr>paused := False\<rparr>)))\<lparr>paused := True\<rparr>,
            snd (check api cfg later (g\<lparr>paused := False\<rparr>)))"
proof -
  have same: "g\<lparr>paused := True\<rparr> = g"
    using assms(1) by (cases g) simp
  have det: "check api cfg later g
         = ((fst (check api cfg later (g\<lparr>paused := False\<rparr>)))\<lparr>paused := True\<rparr>,
            snd (check api cfg later (g\<lparr>paused := False\<rparr>)))"
    using check_paused[where g = "g\<lparr>paused := False\<rparr>" and b = True, of api cfg later] same by simp
  have main: "(\<forall>e \<in> set tr. e = Request PositionRisk \<or> (\<exists>line. e = Log INFO line))
     \<and> paused g'
     \<and> (\<forall>ps. getPositions api = Inr ps \<longrightarrow>
           r = Inr () \<and> Guardian.positions g' = ps
           \<and> tr = Request PositionRisk # snd (printPositions now (g\<lparr>Guardian.positions := ps\<rparr>))
           \<and> (\<exists>rest. snd (snd (tick api cfg now (g\<lparr>paused := False\<rparr>))) = tr @ rest)
           \<and> map (\<lambda>e. (StatusEntry.symbol e, StatusEntry.pnl e)) (StatusInfo.positions (getStatusInfo g'))
               = map (\<lambda>p. (Position.symbol p, Position.pnl p)) ps)"
  proof (cases "getPositions api")
    case (Inl e)
    with assms have "tr = [Request PositionRisk]" "g' = g"
      by (simp_all add: tick_def)
    with assms(1) Inl show ?thesis by simp
  next
    case (Inr ps)
    let ?p = "printPositions now (g\<lparr>Guardian.positions := ps\<rparr>)"
    note t = assms(2)[unfolded tick_Inr[OF Inr] Let_def]
    from t assms(1) have r: "r = Inr ()" and g': "g' = fst ?p"
      and tr: "tr = Request PositionRisk # snd ?p"
      by simp_all
    have ev: "\<forall>e \<in> set tr. e = Request PositionRisk \<or> (\<exists>line. e = Log INFO line)"
      unfolding tr using printPositions_events[of _ now "g\<lparr>Guardian.positions := ps\<rparr>"] by auto
    have fr: "Guardian.positions g' = ps" "paused g'"
      unfolding g' using printPositions_frame[of now "g\<lparr>Guardian.positions := ps\<rparr>"] assms(1)
      by simp_all
    have "snd (printPositions now (g\<lparr>paused := False, Guardian.positions := ps\<rparr>)) = snd ?p"
      by (simp add: printPositions_def Let_def)
    then have pre: "\<exists>rest. snd (snd (tick api cfg now (g\<lparr>paused := False\<rparr>))) = tr @ rest"
      unfolding tr by (simp add: tick_Inr[OF Inr] Let_def)
    have st: "map (\<lambda>e. (StatusEntry.symbol e, StatusEntry.pnl e)) (StatusInfo.positions (getStatusInfo g'))
               = map (\<lambda>p. (Position.symbol p, Position.pnl p)) ps"
      using fr(1) by (simp add: getStatusInfo_def comp_def)
    from r tr ev fr pre st Inr show ?thesis by simp
  qed
  from main det show ?thesis by blast
qed

text \<open>
  After \<open>/pause\<close>, a tick that fetches the long position with a loss of 150 prints
  it; the status reports it with its pnl; the detection cycle finds its stop order.
\<close>

theorem tick_paused_witness:
  "paused (fst (cmdPause (initial\<lparr>Guardian.positions := [btc_long]\<rparr>)))
   \<and> tick (example_api\<lparr>getPositions := Inr [btc_long], getAlgoOrders := (\<lambda>s. Inr [stop_algo])\<rparr>)
        example_cfg 1700000000000 (fst (cmdPause (initial\<lparr>Guardian.positions := [btc_long]\<rparr>)))
     = (Inr (),
        initial\<lparr>paused := True, Guardian.positions := [btc_long], lastPrint := 1700000000000\<rparr>,
        [Request PositionRisk, Log INFO (L_Position ''BTCUSDT'' LONG (Fin (- 150)) ''[?]'')])
   \<and> map (\<lambda>e. (StatusEntry.symbol e, StatusEntry.pnl e))
        (StatusInfo.positions (getStatusInfo
           (initial\<lparr>paused := True, Guardian.positions := [btc_long], lastPrint := 1700000000000\<rparr>)))
     = [(''BTCUSDT'', Fin (- 150))]
   \<and> check (example_api\<lparr>getPositions := Inr [btc_long], getAlgoOrders := (\<lambda>s. Inr [stop_algo])\<rparr>)
        example_cfg 1700000002000 (fst (cmdPause (initial\<lparr>Guardian.positions := [btc_long]\<rparr>)))
     = (initial\<lparr>paused := True, Guardian.positions := [btc_long],
                cache := [''BTCUSDT'' \<mapsto> \<lparr>SLState.hasSL = True, lastCheck = 1700000002000\<rparr>]\<rparr>,
        [Request (OpenAlgoOrders ''BTCUSDT'')])"
proof -
  let ?api = "example_api\<lparr>getPositions := Inr [btc_long], getAlgoOrders := (\<lambda>s. Inr [stop_algo])\<rparr>"
  let ?g = "fst (cmdPause (initial\<lparr>Guardian.positions := [btc_long]\<rparr>))"
  let ?g' = "initial\<lparr>paused := True, Guardian.positions := [btc_long], lastPrint := 1700000000000\<rparr>"
  have p: "paused ?g" by (simp add: cmdPause_def)
  have t: "tick ?api example_cfg 1700000000000 ?g
     = (Inr (), ?g',
        [Request PositionRisk, Log INFO (L_Position ''BTCUSDT'' LONG (Fin (- 150)) ''[?]'')])"
    by (simp add: tick_def printPositions_def cmdPause_def initial_def slStr_def btc_long_def)
  have gp: "getPositions ?api = Inr [btc_long]" by simp
  note inst = tick_paused[OF p t, of 1700000002000]
  have st: "map (\<lambda>e. (StatusEntry.symbol e, StatusEntry.pnl e)) (StatusInfo.positions (getStatusInfo ?g'))
              = [(''BTCUSDT'', Fin (- 150))]"
    using inst gp by (simp add: btc_long_def)
  have un: "check ?api example_cfg 1700000002000 (?g\<lparr>paused := False\<rparr>)
              = (initial\<lparr>Guardian.positions := [btc_long],
                   cache := [''BTCUSDT'' \<mapsto> \<lparr>SLState.hasSL = True, lastCheck = 1700000002000\<rparr>]\<rparr>,
                 [Request (OpenAlgoOrders ''BTCUSDT'')])"
    by (simp add: check_def evict_def checkPosition_def checkSL_def initial_def btc_long_def
        stop_algo_def cmdPause_def fun_eq_iff)
  have ck: "check ?api example_cfg 1700000002000 ?g
              = (initial\<lparr>paused := True, Guardian.positions := [btc_long],
                   cache := [''BTCUSDT'' \<mapsto> \<lparr>SLState.hasSL = True, lastCheck = 1700000002000\<rparr>]\<rparr>,
                 [Request (OpenAlgoOrders ''BTCUSDT'')])"
    using inst unfolding un by (simp add: initial_def)
  from p t st ck show ?thesis by simp
qed

subsection \<open>The close order\<close>

text \<open>
  Claim C3. When the three attempts to submit the close order fail, \<open>closePosition\<close>
  has submitted it three times, 500 milliseconds apart, logged the error and handed
  the failure to \<open>telegram.send\<close>, and returns normally. No run of \<open>closePosition\<close>
  submits more than three close orders. The monitor keeps nothing about the
  failure: a next tick that fetches the position, still over the threshold, calls
  \<open>closePosition\<close> for it again.
\<close>

theorem closePosition_retry_exhausted:
  assumes "\<not> dryRun cfg"
    and "roundQty api (symbolInfo g) (Position.symbol pos) (Math_abs (amt pos)) = (Inr qty, info, tr0)"
    and "sd = (if gt (amt pos) (Fin 0) then SELL else BUY)"
    and "marketClose api (Position.symbol pos) sd qty 1 = Inl (Error m1)"
    and "marketClose api (Position.symbol pos) sd qty 2 = Inl (Error m2)"
    and "marketClose api (Position.symbol pos) sd qty 3 = Inl (Error m3)"
  shows "closePosition api cfg pos g =
           (Inr (), g\<lparr>symbolInfo := info\<rparr>,
            tr0 @ cancellations api (Position.symbol pos) @
            [Request (MarketClose (Position.symbol pos) sd qty),
             Log WRN (L_Retry (''close '' @ Position.symbol pos) 1 3 500), Sleep 500,
             Request (MarketClose (Position.symbol pos) sd qty),
             Log WRN (L_Retry (''close '' @ Position.symbol pos) 2 3 500), Sleep 500,
             Request (MarketClose (Position.symbol pos) sd qty),
             Log ERR (L_Failed (Position.symbol pos) m3),
             Send (T_Error (Position.symbol pos) (take 100 m3))])
       \<and> closeOrders (snd (snd (closePosition api cfg pos g))) = 3
       \<and> closeOrders (snd (snd (closePosition api' cfg' pos' g'))) \<le> 3
       \<and> (closeTrigger cfg pos \<and> \<not> paused g \<and> getPositions api' = Inr [pos]
            \<longrightarrow> closeCalls (snd (snd (tick api' cfg later (g\<lparr>symbolInfo := info\<rparr>)))) = [pos])"
proof -
  let ?s = "Position.symbol pos"
  let ?fn = "\<lambda>i. (marketClose api ?s sd qty i, [Request (MarketClose ?s sd qty)])"
  have r: "retry ?fn 3 500 (''close '' @ ?s) =
             (Inl (Some (Error m3)),
              [Request (MarketClose ?s sd qty)]
              @ [Log WRN (L_Retry (''close '' @ ?s) 1 3 500), Sleep 500]
              @ [Request (MarketClose ?s sd qty)]
              @ [Log WRN (L_Retry (''close '' @ ?s) 2 3 500), Sleep 500]
              @ [Request (MarketClose ?s sd qty)])"
  proof -
    have f1: "?fn 1 = (Inl (Error m1), [Request (MarketClose ?s sd qty)])"
      using assms(4) by simp
    have f2: "?fn 2 = (Inl (Error m2), [Request (MarketClose ?s sd qty)])"
      using assms(5) by simp
    have f3: "?fn 3 = (Inl (Error m3), [Request (MarketClose ?s sd qty)])"
      using assms(6) by simp
    show ?thesis
      by (rule retry_all_fail[where fn = ?fn, OF f1 f2 f3])
  qed
  have a: "closePosition api cfg pos g =
           (Inr (), g\<lparr>symbolInfo := info\<rparr>,
            tr0 @ cancellations api ?s @
            [Request (MarketClose ?s sd qty),
             Log WRN (L_Retry (''close '' @ ?s) 1 3 500), Sleep 500,
             Request (MarketClose ?s sd qty),
             Log WRN (L_Retry (''close '' @ ?s) 2 3 500), Sleep 500,
             Request (MarketClose ?s sd qty),
             Log ERR (L_Failed ?s m3),
             Send (T_Error ?s (take 100 m3))])"
    using closePosition_live[OF assms(1,2) r[unfolded assms(3)]] assms(3) by simp
  have t0: "closeOrders tr0 = 0"
    using closeOrders_roundQty[of api "symbolInfo g" ?s "Math_abs (amt pos)"] assms(2) by simp
  have b: "closeOrders (snd (snd (closePosition api cfg pos g))) = 3"
    unfolding a using t0 cancellations_quiet[of api ?s] by (simp add: closeOrders_append)
  have c: "closeOrders (snd (snd (closePosition api' cfg' pos' g'))) \<le> 3"
    by (rule closeOrders_closePosition)
  have d: "closeCalls (snd (snd (tick api' cfg later (g\<lparr>symbolInfo := info\<rparr>)))) = [pos]"
    if "closeTrigger cfg pos" "\<not> paused g" "getPositions api' = Inr [pos]"
    using that closeLoop_single[OF that(1), of api']
    by (simp add: tick_Inr[OF that(3)] Let_def closeCalls_append closeCalls_printPositions
        printPositions_def)
  from a b c d show ?thesis by blast
qed

text \<open>
  The long position on the exchange that rejects every close order, and the tick a
  second later.
\<close>

theorem closePosition_retry_exhausted_witness:
  "closePosition example_api example_cfg btc_long initial =
     (Inr (), initial\<lparr>symbolInfo := [''BTCUSDT'' \<mapsto> 3, ''DOGEUSDT'' \<mapsto> 0]\<rparr>,
      [Request ExchangeInfo, Request (CancelAllOrders ''BTCUSDT''), Request (OpenAlgoOrders ''BTCUSDT''),
       Request (MarketClose ''BTCUSDT'' SELL (Fin (1 / 10))),
       Log WRN (L_Retry ''close BTCUSDT'' 1 3 500), Sleep 500,
       Request (MarketClose ''BTCUSDT'' SELL (Fin (1 / 10))),
       Log WRN (L_Retry ''close BTCUSDT'' 2 3 500), Sleep 500,
       Request (MarketClose ''BTCUSDT'' SELL (Fin (1 / 10))),
       Log ERR (L_Failed ''BTCUSDT'' ''HTTP 500: busy''),
       Send (T_Error ''BTCUSDT'' ''HTTP 500: busy'')])
   \<and> closeCalls (snd (snd (tick (example_api\<lparr>getPositions := Inr [btc_long]\<rparr>) example_cfg 1700000001000
                          (initial\<lparr>symbolInfo := [''BTCUSDT'' \<mapsto> 3, ''DOGEUSDT'' \<mapsto> 0]\<rparr>))))
       = [btc_long]"
proof -
  have nd: "\<not> dryRun example_cfg" by (simp add: example_cfg_def)
  have rq: "roundQty example_api (symbolInfo initial) (Position.symbol btc_long) (Math_abs (amt btc_long))
     = (Inr (Fin (1 / 10)), [''BTCUSDT'' \<mapsto> 3, ''DOGEUSDT'' \<mapsto> 0], [Request ExchangeInfo])"
    using roundQty_btc[of "marketClose example_api"] by simp
  have sd: "SELL = (if gt (amt btc_long) (Fin 0) then SELL else BUY)"
    by (simp add: btc_long_def gt_def)
  have f: "marketClose example_api (Position.symbol btc_long) SELL (Fin (1 / 10)) i
             = Inl (Error ''HTTP 500: busy'')" for i
    by (simp add: example_api_def)
  have tg: "closeTrigger example_cfg btc_long"
    by (simp add: closeTrigger_def example_cfg_def btc_long_def)
  have np: "\<not> paused initial" by (simp add: initial_def)
  have gp: "getPositions (example_api\<lparr>getPositions := Inr [btc_long]\<rparr>) = Inr [btc_long]" by simp
  note inst = closePosition_retry_exhausted[OF nd rq sd f f f,
      of "example_api\<lparr>getPositions := Inr [btc_long]\<rparr>" example_cfg btc_long initial 1700000001000]
  have c: "cancellations example_api ''BTCUSDT''
             = [Request (CancelAllOrders ''BTCUSDT''), Request (OpenAlgoOrders ''BTCUSDT'')]"
    by (simp add: cancellations_def example_api_def)
  from inst tg np gp c show ?thesis by (simp add: btc_long_def)
qed

text \<open>
  Claim C4. When an attempt to submit the close order succeeds, \<open>closePosition\<close> ends
  with the log line and the notification of the class of the returned status, and
  sends no other notification: \<open>FILLED\<close> gives the closed notification,
  \<open>PARTIALLY_FILLED\<close> and \<open>NEW\<close> the not-fully-closed one, any other status the
  status one. Results of two different classes never give the same notification.
\<close>

theorem closePosition_outcome:
  assumes "\<not> dryRun cfg"
    and "roundQty api (symbolInfo g) (Position.symbol pos) (Math_abs (amt pos)) = (Inr qty, info, tr0)"
    and "sd = (if gt (amt pos) (Fin 0) then SELL else BUY)"
    and "k \<in> {1, 2, 3}"
    and "\<forall>j. 1 \<le> j \<and> j < k \<longrightarrow> (\<exists>e. marketClose api (Position.symbol pos) sd qty j = Inl e)"
    and "marketClose api (Position.symbol pos) sd qty k = Inr result"
  shows "(\<exists>pre. closePosition api cfg pos g
                  = (Inr (), g\<lparr>symbolInfo := info\<rparr>, pre @ reportResult pos result)
               \<and> notifications pre = [])
     \<and> reportResult pos result =
         (case classify (OrderResult.status result) of
            Filled \<Rightarrow>
              [Log OK (L_Closed (Position.symbol pos) (orderId result)),
               Send (T_Closed (Position.symbol pos) (Position.pnl pos) (orderId result))]
          | NotFullyClosed \<Rightarrow>
              [Log WRN (L_Order (Position.symbol pos) (OrderResult.status result) (orderId result)),
               Send (T_NotFullyClosed (Position.symbol pos) (OrderResult.status result) (orderId result))]
          | UnexpectedStatus \<Rightarrow>
              [Log ERR (L_Unexpected (Position.symbol pos) (OrderResult.status result)),
               Send (T_Status (Position.symbol pos) (OrderResult.status result) (orderId result))])
     \<and> (classify (OrderResult.status result) \<noteq> classify (OrderResult.status other)
          \<longrightarrow> notifications (reportResult pos result) \<noteq> notifications (reportResult pos' other))"
proof -
  let ?s = "Position.symbol pos"
  let ?fn = "\<lambda>i. (marketClose api ?s sd qty i, [Request (MarketClose ?s sd qty)])"
  have k3: "k \<le> 3" and k1: "1 \<le> k" using assms(4) by auto
  have "fst (retry_from ?fn 3 500 (''close '' @ ?s) 1 None) = Inr result"
  proof (rule retry_from_success[where fn = ?fn and k = k and t = "[Request (MarketClose ?s sd qty)]"])
    show "?fn k = (Inr result, [Request (MarketClose ?s sd qty)])" using assms(6) by simp
    show "k \<le> 3" by (rule k3)
    show "\<exists>e. fst (?fn j) = Inl e" if "1 \<le> j" "j < k" for j
      using assms(5) that by simp
    show "1 \<le> k" by (rule k1)
  qed
  then obtain tr3 where r: "retry ?fn 3 500 (''close '' @ ?s) = (Inr result, tr3)"
    unfolding retry_def by (cases "retry_from ?fn 3 500 (''close '' @ ?s) 1 None") auto
  have n3: "notifications tr3 = []"
    using notifications_retry_from[where fn = ?fn, of 3 500 "''close '' @ ?s" 1 None] r
    by (simp add: retry_def)
  have n0: "notifications tr0 = []"
    using notifications_roundQty[of api "symbolInfo g" ?s "Math_abs (amt pos)"] assms(2) by simp
  have a: "closePosition api cfg pos g
             = (Inr (), g\<lparr>symbolInfo := info\<rparr>,
                (tr0 @ cancellations api ?s @ tr3) @ reportResult pos result)"
    using closePosition_live[OF assms(1,2) r[unfolded assms(3)]] by simp
  have "notifications (tr0 @ cancellations api ?s @ tr3) = []"
    using n0 n3 cancellations_quiet[of api ?s] by (simp add: notifications_append)
  with a have first: "\<exists>pre. closePosition api cfg pos g
                  = (Inr (), g\<lparr>symbolInfo := info\<rparr>, pre @ reportResult pos result)
               \<and> notifications pre = []"
    by blast
  have second: "reportResult pos result =
         (case classify (OrderResult.status result) of
            Filled \<Rightarrow>
              [Log OK (L_Closed (Position.symbol pos) (orderId result)),
               Send (T_Closed (Position.symbol pos) (Position.pnl pos) (orderId result))]
          | NotFullyClosed \<Rightarrow>
              [Log WRN (L_Order (Position.symbol pos) (OrderResult.status result) (orderId result)),
               Send (T_NotFullyClosed (Position.symbol pos) (OrderResult.status result) (orderId result))]
          | UnexpectedStatus \<Rightarrow>
              [Log ERR (L_Unexpected (Position.symbol pos) (OrderResult.status result)),
               Send (T_Status (Position.symbol pos) (OrderResult.status result) (orderId result))])"
    by (simp add: reportResult_def classify_def)
  have third: "classify (OrderResult.status result) \<noteq> classify (OrderResult.status other)
          \<longrightarrow> notifications (reportResult pos result) \<noteq> notifications (reportResult pos' other)"
    by (auto simp: reportResult_def classify_def split: if_splits)
  from first second third show ?thesis by blast
qed

text \<open>
  A close order filled at once, one partially filled at the second attempt, and one
  that comes back expired.
\<close>

theorem closePosition_outcome_witness:
  "notifications (snd (snd (closePosition
       (example_api\<lparr>marketClose := (\<lambda>s d q i. Inr \<lparr>orderId = 77, OrderResult.status = ''FILLED''\<rparr>)\<rparr>)
       example_cfg btc_long initial)))
     = [T_Closed ''BTCUSDT'' (Fin (- 150)) 77]
   \<and> notifications (snd (snd (closePosition
       (example_api\<lparr>marketClose := (\<lambda>s d q i. if i < 2 then Inl (Error ''HTTP 500: busy'')
                            else Inr \<lparr>orderId = 78, OrderResult.status = ''PARTIALLY_FILLED''\<rparr>)\<rparr>)
       example_cfg btc_long initial)))
     = [T_NotFullyClosed ''BTCUSDT'' ''PARTIALLY_FILLED'' 78]
   \<and> notifications (snd (snd (closePosition
       (example_api\<lparr>marketClose := (\<lambda>s d q i. Inr \<lparr>orderId = 79, OrderResult.status = ''EXPIRED''\<rparr>)\<rparr>)
       example_cfg btc_long initial)))
     = [T_Status ''BTCUSDT'' ''EXPIRED'' 79]"
proof -
  let ?a = "example_api\<lparr>marketClose := (\<lambda>s d q i. Inr \<lparr>orderId = 77, OrderResult.status = ''FILLED''\<rparr>)\<rparr>"
  let ?b = "example_api\<lparr>marketClose := (\<lambda>s d q i. if i < 2 then Inl (Error ''HTTP 500: busy'')
                            else Inr \<lparr>orderId = 78, OrderResult.status = ''PARTIALLY_FILLED''\<rparr>)\<rparr>"
  let ?c = "example_api\<lparr>marketClose := (\<lambda>s d q i. Inr \<lparr>orderId = 79, OrderResult.status = ''EXPIRED''\<rparr>)\<rparr>"
  have nd: "\<not> dryRun example_cfg" by (simp add: example_cfg_def)
  have sd: "SELL = (if gt (amt btc_long) (Fin 0) then SELL else BUY)"
    by (simp add: btc_long_def gt_def)
  have k1: "(1::nat) \<in> {1, 2, 3}" and k2: "(2::nat) \<in> {1, 2, 3}" by simp_all
  have ra: "roundQty ?a (symbolInfo initial) (Position.symbol btc_long) (Math_abs (amt btc_long))
     = (Inr (Fin (1 / 10)), [''BTCUSDT'' \<mapsto> 3, ''DOGEUSDT'' \<mapsto> 0], [Request ExchangeInfo])"
    by (rule roundQty_btc)
  have rb: "roundQty ?b (symbolInfo initial) (Position.symbol btc_long) (Math_abs (amt btc_long))
     = (Inr (Fin (1 / 10)), [''BTCUSDT'' \<mapsto> 3, ''DOGEUSDT'' \<mapsto> 0], [Request ExchangeInfo])"
    by (rule roundQty_btc)
  have rc: "roundQty ?c (symbolInfo initial) (Position.symbol btc_long) (Math_abs (amt btc_long))
     = (Inr (Fin (1 / 10)), [''BTCUSDT'' \<mapsto> 3, ''DOGEUSDT'' \<mapsto> 0], [Request ExchangeInfo])"
    by (rule roundQty_btc)
  have fa: "\<forall>j. 1 \<le> j \<and> j < 1 \<longrightarrow>
              (\<exists>e. marketClose ?a (Position.symbol btc_long) SELL (Fin (1 / 10)) j = Inl e)"
    by simp
  have sa: "marketClose ?a (Position.symbol btc_long) SELL (Fin (1 / 10)) 1
              = Inr \<lparr>orderId = 77, OrderResult.status = ''FILLED''\<rparr>"
    by simp
  have fb: "\<forall>j. 1 \<le> j \<and> j < 2 \<longrightarrow>
              (\<exists>e. marketClose ?b (Position.symbol btc_long) SELL (Fin (1 / 10)) j = Inl e)"
    by simp
  have sb: "marketClose ?b (Position.symbol btc_long) SELL (Fin (1 / 10)) 2
              = Inr \<lparr>orderId = 78, OrderResult.status = ''PARTIALLY_FILLED''\<rparr>"
    by simp
  have fc: "\<forall>j. 1 \<le> j \<and> j < 1 \<longrightarrow>
              (\<exists>e. marketClose ?c (Position.symbol btc_long) SELL (Fin (1 / 10)) j = Inl e)"
    by simp
  have sc: "marketClose ?c (Position.symbol btc_long) SELL (Fin (1 / 10)) 1
              = Inr \<lparr>orderId = 79, OrderResult.status = ''EXPIRED''\<rparr>"
    by simp
  have a: "notifications (snd (snd (closePosition ?a example_cfg btc_long initial)))
             = [T_Closed ''BTCUSDT'' (Fin (- 150)) 77]"
    using closePosition_outcome[where other = "\<lparr>orderId = 78, OrderResult.status = ''PARTIALLY_FILLED''\<rparr>" and pos' = btc_long, OF nd ra sd k1 fa sa]
    by (auto simp: notifications_append classify_def btc_long_def)
  have b: "notifications (snd (snd (closePosition ?b example_cfg btc_long initial)))
             = [T_NotFullyClosed ''BTCUSDT'' ''PARTIALLY_FILLED'' 78]"
    using closePosition_outcome[where other = "\<lparr>orderId = 79, OrderResult.status = ''EXPIRED''\<rparr>" and pos' = btc_long, OF nd rb sd k2 fb sb]
    by (auto simp: notifications_append classify_def btc_long_def)
  have c: "notifications (snd (snd (closePosition ?c example_cfg btc_long initial)))
             = [T_Status ''BTCUSDT'' ''EXPIRED'' 79]"
    using closePosition_outcome[where other = "\<lparr>orderId = 77, OrderResult.status = ''FILLED''\<rparr>" and pos' = btc_long, OF nd rc sd k1 fc sc]
    by (auto simp: notifications_append classify_def btc_long_def)
  from a b c show ?thesis by simp
qed

end
